theory Spec2Isabelle
  imports Main "HOL-Library.Sublist"
begin

section \<open>JavaScript primitives used by the sources\<close>

text \<open>
  Strings are lists of 8-bit characters, read as the code units 0 to 255: the sources
  are modelled on such text.
  \<open>String.prototype.includes\<close> is the substring test,
  \<open>String.prototype.split\<close> with a one-character separator cuts at every occurrence
  of it (so the result is never empty and \<open>''''.split(c)\<close> is \<open>['''']\<close>).
\<close>

fun js_includes :: "string \<Rightarrow> string \<Rightarrow> bool" where
  "js_includes [] sub = (sub = [])"
| "js_includes (x # xs) sub = (prefix sub (x # xs) \<or> js_includes xs sub)"

fun split_on :: "char \<Rightarrow> string \<Rightarrow> string list" where
  "split_on c [] = [[]]"
| "split_on c (x # xs) =
     (if x = c then [] # split_on c xs
      else (case split_on c xs of [] \<Rightarrow> [[x]] | w # ws \<Rightarrow> (x # w) # ws))"

text \<open>
  A JavaScript array may have holes: writing \<open>parts[i] = v\<close> beyond the end extends the
  array and leaves the skipped slots empty. An element is \<open>Some s\<close>, a hole is \<open>None\<close>;
  \<open>Array.prototype.join\<close> renders a hole as the empty string.
\<close>

definition js_set_index :: "string option list \<Rightarrow> nat \<Rightarrow> string \<Rightarrow> string option list" where
  "js_set_index xs i v =
     (if i < length xs then xs[i := Some v]
      else xs @ replicate (i - length xs) None @ [Some v])"

fun js_elem :: "string option \<Rightarrow> string" where
  "js_elem None = []"
| "js_elem (Some s) = s"

fun js_join :: "string \<Rightarrow> string option list \<Rightarrow> string" where
  "js_join sep [] = []"
| "js_join sep [x] = js_elem x"
| "js_join sep (x # y # ys) = js_elem x @ sep @ js_join sep (y # ys)"

text \<open>\<open>a || b\<close> on nullable strings: \<open>null\<close> and the empty string are falsy.\<close>

definition js_or :: "string option \<Rightarrow> string option \<Rightarrow> string option" where
  "js_or a b = (case a of None \<Rightarrow> b | Some s \<Rightarrow> if s = [] then b else Some s)"

section \<open>src/lib/utils.ts\<close>

subsection \<open>truncateIP\<close>

definition truncateIP :: "string option \<Rightarrow> string option" where
  "truncateIP ip =
     (case ip of
        None \<Rightarrow> None
      | Some s \<Rightarrow>
          if s = [] then None
          else if js_includes s ''.'' then
            (let parts = map Some (split_on CHR ''.'' s);
                 parts = js_set_index parts 3 ''0''
             in Some (js_join ''.'' parts))
          else if js_includes s '':'' then
            (let parts = map Some (split_on CHR '':'' s)
             in Some (js_join '':'' (take 4 parts) @ ''::''))
          else Some s)"

subsection \<open>parseUserAgent\<close>

text \<open>
  \<open>UAParser\<close> is the ua-parser-js library: \<open>getDevice_type\<close> is \<open>parser.getDevice().type\<close>
  and \<open>getBrowser_name\<close> is \<open>parser.getBrowser().name\<close>, \<open>None\<close> standing for
  \<open>undefined\<close>. The library is a parameter of the model.
\<close>

record UAParser =
  getDevice_type :: "string \<Rightarrow> string option"
  getBrowser_name :: "string \<Rightarrow> string option"

definition parseUserAgent :: "UAParser \<Rightarrow> string option \<Rightarrow> string \<times> string" where
  "parseUserAgent parser userAgent =
     (case userAgent of
        None \<Rightarrow> (''unknown'', ''unknown'')
      | Some ua \<Rightarrow>
          if ua = [] then (''unknown'', ''unknown'')
          else
            (let device = getDevice_type parser ua;
                 browser = getBrowser_name parser ua;
                 device_type =
                   (if device = Some ''mobile'' then ''mobile''
                    else if device = Some ''tablet'' then ''tablet''
                    else if device = None \<or> device = Some [] \<or> device = Some ''console''
                            \<or> device = Some ''wearable'' then ''desktop''
                    else ''desktop'');
                 browserName = (case js_or browser None of None \<Rightarrow> ''unknown'' | Some n \<Rightarrow> n)
             in (device_type, browserName)))"

section \<open>Errors and responses\<close>

text \<open>
  A thrown JavaScript error, with the three properties the handlers inspect:
  \<open>error.name\<close>, \<open>error.message\<close> and \<open>error.code\<close> (\<open>None\<close> when undefined).
\<close>

datatype js_error = JsError (err_name: string) (err_message: string) (err_code: "string option")

definition new_Error :: "string \<Rightarrow> js_error" where
  "new_Error msg = JsError ''Error'' msg None"

text \<open>An error raised by PostgreSQL, with its SQLSTATE in \<open>code\<close>.\<close>

definition pg_error :: "string \<Rightarrow> string \<Rightarrow> js_error" where
  "pg_error sqlstate msg = JsError ''error'' msg (Some sqlstate)"

text \<open>A JavaScript number that came out of \<open>parseInt\<close>: an integer, or \<open>None\<close> for NaN.\<close>

type_synonym js_number = "int option"

record GenerateQRResponse =
  resp_id :: int
  resp_short_code :: string
  resp_short_url :: string
  resp_qr_code_data_url :: string
  resp_analytics_url :: string

record ScanAnalytics =
  total_scans :: js_number
  scans_by_date :: "(nat \<times> js_number) list"
  device_breakdown :: "(string \<times> js_number) list"
  browser_breakdown :: "(string \<times> js_number) list"
  location_breakdown :: "(string \<times> string \<times> js_number) list"

text \<open>
  What a route handler returns: \<open>NextResponse.json(body, {status})\<close> with one of the
  three bodies the handlers build, or \<open>NextResponse.redirect(url, status)\<close>.
  \<open>ErrorJson status error details\<close> is the body \<open>{error, details}\<close>.
\<close>

datatype response =
    GeneratedJson nat GenerateQRResponse
  | AnalyticsJson nat ScanAnalytics
  | ErrorJson nat string "string option"
  | RedirectTo string nat

fun status_of :: "response \<Rightarrow> nat" where
  "status_of (GeneratedJson st _) = st"
| "status_of (AnalyticsJson st _) = st"
| "status_of (ErrorJson st _ _) = st"
| "status_of (RedirectTo _ st) = st"

section \<open>The database: db/schema.sql and src/lib/db.ts\<close>

record QRCode =
  qr_id :: int
  short_code :: string
  target_url :: string
  fg_color :: string
  bg_color :: string
  created_at :: nat
  scan_count :: int

record Scan =
  scan_id :: int
  qr_code_id :: int
  scanned_at :: nat
  user_agent :: "string option"
  ip_address :: "string option"
  country :: "string option"
  city :: "string option"
  device_type :: "string option"
  browser :: "string option"

text \<open>
  The two tables in insertion order, the two SERIAL sequences and the clock that
  \<open>NOW()\<close> reads (seconds since the epoch).
\<close>

record store =
  qr_codes :: "QRCode list"
  scans :: "Scan list"
  qr_codes_id_seq :: int
  scans_id_seq :: int
  db_now :: nat

text \<open>The CHECK constraints: \<open>^#[0-9A-Fa-f]{6}$\<close> on the colors.\<close>

definition is_hex_digit :: "char \<Rightarrow> bool" where
  "is_hex_digit c = (c \<in> set ''0123456789ABCDEFabcdef'')"

definition hex_color :: "string \<Rightarrow> bool" where
  "hex_color s =
     (case s of [] \<Rightarrow> False
      | c # cs \<Rightarrow> c = CHR ''#'' \<and> length cs = 6 \<and> list_all is_hex_digit cs)"

definition too_long :: "nat \<Rightarrow> string option \<Rightarrow> bool" where
  "too_long n v = (case v of None \<Rightarrow> False | Some s \<Rightarrow> n < length s)"

text \<open>
  Every query takes \<open>fault\<close>, a failure of the storage layer itself (connection lost,
  timeout) that the environment may inject: \<open>Some e\<close> makes the query throw \<open>e\<close> and
  leaves the tables as they were.

  \<open>createQRCode\<close>: the INSERT checks the column widths, then the CHECK constraints,
  then the UNIQUE index on \<open>short_code\<close> (SQLSTATE 23505, message starting
  \<open>duplicate key value violates unique constraint\<close>). The id of the new row is the
  next value of the sequence. Three things PostgreSQL does here are left out, none of
  which touches the \<open>short_code\<close> or \<open>target_url\<close> of a row: a failed insert consumes a
  sequence value all the same (so after a collision the real id is one higher than
  the model's), the primary key is not checked against the sequence, and a value that
  exceeds a column only by trailing spaces is cut, not refused.
\<close>

definition createQRCode ::
  "store \<Rightarrow> js_error option \<Rightarrow> string \<Rightarrow> string \<Rightarrow> string \<Rightarrow> string \<Rightarrow> js_error + (QRCode \<times> store)" where
  "createQRCode s fault shortCode targetUrl fgColor bgColor =
     (case fault of
        Some e \<Rightarrow> Inl e
      | None \<Rightarrow>
          if 21 < length shortCode \<or> 7 < length fgColor \<or> 7 < length bgColor then
            Inl (pg_error ''22001'' ''value too long for type character varying'')
          else if \<not> hex_color fgColor \<or> \<not> hex_color bgColor \<or> targetUrl = [] then
            Inl (pg_error ''23514'' ''new row for relation qr_codes violates check constraint'')
          else if shortCode \<in> set (map short_code (qr_codes s)) then
            Inl (pg_error ''23505''
                   ''duplicate key value violates unique constraint qr_codes_short_code_key'')
          else
            (let row = \<lparr> qr_id = qr_codes_id_seq s, short_code = shortCode,
                         target_url = targetUrl, fg_color = fgColor, bg_color = bgColor,
                         created_at = db_now s, scan_count = 0 \<rparr>
             in Inr (row, s\<lparr> qr_codes := qr_codes s @ [row],
                              qr_codes_id_seq := qr_codes_id_seq s + 1 \<rparr>)))"

definition getQRCodeByShortCode ::
  "store \<Rightarrow> js_error option \<Rightarrow> string \<Rightarrow> js_error + QRCode option" where
  "getQRCodeByShortCode s fault shortCode =
     (case fault of
        Some e \<Rightarrow> Inl e
      | None \<Rightarrow> Inr (find (\<lambda>q. short_code q = shortCode) (qr_codes s)))"

text \<open>
  The \<open>id\<close> column is INTEGER and the parameter is read at that type: a stored id lies
  within the int4 range, so a parameter outside of it matches no row, and for it the
  query does not answer with an empty result but throws SQLSTATE 22003.
\<close>

definition in_int4 :: "int \<Rightarrow> bool" where
  "in_int4 i = (- 2147483648 \<le> i \<and> i \<le> 2147483647)"

definition getQRCodeById :: "store \<Rightarrow> js_error option \<Rightarrow> int \<Rightarrow> js_error + QRCode option" where
  "getQRCodeById s fault i =
     (case fault of
        Some e \<Rightarrow> Inl e
      | None \<Rightarrow>
          (case find (\<lambda>q. qr_id q = i) (qr_codes s) of
             Some q \<Rightarrow> Inr (Some q)
           | None \<Rightarrow>
               if in_int4 i then Inr None
               else Inl (pg_error ''22003'' ''value out of range for type integer'')))"

text \<open>The argument object of \<open>createScan\<close>.\<close>

record ScanInput =
  in_qr_code_id :: int
  in_user_agent :: "string option"
  in_ip_address :: "string option"
  in_country :: "string option"
  in_city :: "string option"
  in_device_type :: "string option"
  in_browser :: "string option"

definition createScan :: "store \<Rightarrow> js_error option \<Rightarrow> ScanInput \<Rightarrow> js_error + store" where
  "createScan s fault scan =
     (case fault of
        Some e \<Rightarrow> Inl e
      | None \<Rightarrow>
          if too_long 45 (in_ip_address scan) \<or> too_long 2 (in_country scan)
             \<or> too_long 100 (in_city scan) \<or> too_long 20 (in_device_type scan)
             \<or> too_long 50 (in_browser scan) then
            Inl (pg_error ''22001'' ''value too long for type character varying'')
          else if in_device_type scan \<notin> {None, Some ''mobile'', Some ''tablet'',
                                           Some ''desktop'', Some ''unknown''} then
            Inl (pg_error ''23514'' ''new row for relation scans violates check constraint'')
          else if in_qr_code_id scan \<notin> set (map qr_id (qr_codes s)) then
            Inl (pg_error ''23503'' ''insert or update on table scans violates foreign key constraint'')
          else
            (let row = \<lparr> scan_id = scans_id_seq s, qr_code_id = in_qr_code_id scan,
                         scanned_at = db_now s, user_agent = in_user_agent scan,
                         ip_address = in_ip_address scan, country = in_country scan,
                         city = in_city scan, device_type = in_device_type scan,
                         browser = in_browser scan \<rparr>
             in Inr (s\<lparr> scans := scans s @ [row], scans_id_seq := scans_id_seq s + 1 \<rparr>)))"

section \<open>Request validation: the zod schema generateQRSchema\<close>

text \<open>
  The parsed JSON body: each field is a string or absent. \<open>is_url\<close> is zod's
  \<open>.url()\<close> check, a parameter of the model. A color that is absent takes its default
  before the regex is applied.
\<close>

record GenerateQRBody =
  body_targetUrl :: "string option"
  body_fgColor :: "string option"
  body_bgColor :: "string option"

record GenerateQRInput =
  targetUrl :: string
  fgColor :: string
  bgColor :: string

definition ZodError :: js_error where
  "ZodError = JsError ''ZodError'' ''validation failed'' None"

definition generateQRSchema_parse ::
  "(string \<Rightarrow> bool) \<Rightarrow> GenerateQRBody \<Rightarrow> js_error + GenerateQRInput" where
  "generateQRSchema_parse is_url body =
     (let fg = (case body_fgColor body of None \<Rightarrow> ''#000000'' | Some c \<Rightarrow> c);
          bg = (case body_bgColor body of None \<Rightarrow> ''#FFFFFF'' | Some c \<Rightarrow> c)
      in case body_targetUrl body of
           None \<Rightarrow> Inl ZodError
         | Some u \<Rightarrow>
             if is_url u \<and> hex_color fg \<and> hex_color bg
             then Inr \<lparr> targetUrl = u, fgColor = fg, bgColor = bg \<rparr>
             else Inl ZodError)"

section \<open>src/app/api/qr/generate/route.ts\<close>

text \<open>
  What the handler takes from outside: the URL check of zod, the successive results of
  \<open>generateShortCode(10)\<close> (\<open>nanoid k\<close> is what the k-th call returns, counting from
  0), the storage failure injected into the k-th call of \<open>createQRCode\<close>, the QR
  renderer \<open>QRCode.toDataURL\<close> (\<open>Inl\<close> when it throws) and the environment variable
  \<open>NEXT_PUBLIC_BASE_URL\<close>.
\<close>

record gen_env =
  is_url :: "string \<Rightarrow> bool"
  nanoid :: "nat \<Rightarrow> string"
  insert_fault :: "nat \<Rightarrow> js_error option"
  toDataURL :: "string \<Rightarrow> string \<Rightarrow> string \<Rightarrow> js_error + string"
  NEXT_PUBLIC_BASE_URL :: "string option"

definition getBaseURL :: "gen_env \<Rightarrow> string" where
  "getBaseURL E =
     (case js_or (NEXT_PUBLIC_BASE_URL E) None of
        None \<Rightarrow> ''http://localhost:3000''
      | Some u \<Rightarrow> u)"

definition generateQRCodeDataURL :: "gen_env \<Rightarrow> string \<Rightarrow> string \<Rightarrow> string \<Rightarrow> js_error + string" where
  "generateQRCodeDataURL E text fg bg =
     (case toDataURL E text fg bg of
        Inl e \<Rightarrow> Inl (new_Error ''Failed to generate QR code'')
      | Inr dataUrl \<Rightarrow> Inr dataUrl)"

abbreviation (input) MAX_ATTEMPTS :: nat where
  "MAX_ATTEMPTS \<equiv> 5"

text \<open>The test of the inner \<open>catch\<close>: is the error a duplicate short code?\<close>

definition is_duplicate_key :: "js_error \<Rightarrow> bool" where
  "is_duplicate_key error =
     (js_includes (err_message error) ''duplicate key'' \<or> err_code error = Some ''23505'')"

text \<open>
  The decimal text of an integer id, as a template literal renders it.
\<close>

function show_nat :: "nat \<Rightarrow> string" where
  "show_nat n =
     (if n < 10 then [char_of (48 + n)]
      else show_nat (n div 10) @ [char_of (48 + n mod 10)])"
  by pat_completeness auto
termination
  by (relation "measure (\<lambda>n. n)") auto

definition show_int :: "int \<Rightarrow> string" where
  "show_int i = (if i < 0 then CHR ''-'' # show_nat (nat (- i)) else show_nat (nat i))"

text \<open>
  The body of the inner \<open>try\<close>: insert the row, then render the image and build the
  201 response. It returns the store as the insert left it, also when rendering throws.
\<close>

definition try_issue ::
  "gen_env \<Rightarrow> GenerateQRInput \<Rightarrow> store \<Rightarrow> string \<Rightarrow> nat \<Rightarrow> (js_error + response) \<times> store" where
  "try_issue E validatedData s shortCode attempts =
     (case createQRCode s (insert_fault E attempts) shortCode (targetUrl validatedData)
             (fgColor validatedData) (bgColor validatedData) of
        Inl error \<Rightarrow> (Inl error, s)
      | Inr (qrCode, s') \<Rightarrow>
          (let baseURL = getBaseURL E;
               shortUrl = baseURL @ ''/r/'' @ shortCode
           in case generateQRCodeDataURL E shortUrl (fgColor validatedData)
                     (bgColor validatedData) of
                Inl error \<Rightarrow> (Inl error, s')
              | Inr qrCodeDataUrl \<Rightarrow>
                  (Inr (GeneratedJson 201
                     \<lparr> resp_id = qr_id qrCode, resp_short_code = shortCode,
                        resp_short_url = shortUrl, resp_qr_code_data_url = qrCodeDataUrl,
                        resp_analytics_url = baseURL @ ''/analytics/'' @ show_int (qr_id qrCode) \<rparr>),
                   s')))"

text \<open>
  The \<open>while\<close> loop. \<open>tried\<close> records the short codes handed to \<open>createQRCode\<close> so
  far, oldest first: its length is the number of persistence attempts.
\<close>

function issue_loop ::
  "gen_env \<Rightarrow> GenerateQRInput \<Rightarrow> store \<Rightarrow> string \<Rightarrow> nat \<Rightarrow> string list
     \<Rightarrow> (js_error + response) \<times> store \<times> string list" where
  "issue_loop E validatedData s shortCode attempts tried =
     (if attempts < MAX_ATTEMPTS then
        (case try_issue E validatedData s shortCode attempts of
           (Inr resp, s') \<Rightarrow> (Inr resp, s', tried @ [shortCode])
         | (Inl error, s') \<Rightarrow>
             if is_duplicate_key error
             then issue_loop E validatedData s' (nanoid E (Suc attempts)) (Suc attempts)
                    (tried @ [shortCode])
             else (Inl error, s', tried @ [shortCode]))
      else (Inl (new_Error ''Failed to generate unique short code''), s, tried))"
  by pat_completeness auto
termination
  by (relation "measure (\<lambda>(E, v, s, c, attempts, tried). MAX_ATTEMPTS - attempts)") auto

text \<open>
  The outer \<open>catch\<close>. The \<open>details\<close> of the 400 response are the issue list of zod,
  which the model leaves out.
\<close>

definition generate_error_response :: "js_error \<Rightarrow> response" where
  "generate_error_response error =
     (if err_name error = ''ZodError'' then ErrorJson 400 ''Invalid input'' None
      else ErrorJson 500 ''Failed to generate QR code'' (Some (err_message error)))"

text \<open>
  \<open>POST\<close>. The request is what \<open>request.json()\<close> gives: the body, or the error it
  throws on malformed JSON. The result is the response, the store afterwards and the
  short codes that were handed to \<open>createQRCode\<close>.
\<close>

definition generate_POST ::
  "gen_env \<Rightarrow> store \<Rightarrow> js_error + GenerateQRBody \<Rightarrow> response \<times> store \<times> string list" where
  "generate_POST E s request =
     (case (case request of
              Inl error \<Rightarrow> Inl error
            | Inr body \<Rightarrow> generateQRSchema_parse (is_url E) body) of
        Inl error \<Rightarrow> (generate_error_response error, s, [])
      | Inr validatedData \<Rightarrow>
          (case issue_loop E validatedData s (nanoid E 0) 0 [] of
             (Inl error, s', tried) \<Rightarrow> (generate_error_response error, s', tried)
           | (Inr resp, s', tried) \<Rightarrow> (resp, s', tried)))"

section \<open>src/app/r/[shortCode]/route.ts\<close>

text \<open>
  \<open>GET\<close>. \<open>headers\<close> is \<open>request.headers.get\<close>; \<open>lookup_fault\<close> and \<open>scan_fault\<close>
  are the storage failures injected into the lookup and into the scan insert. The
  promise of \<open>createScan\<close> is not awaited: its rejection goes to the \<open>.catch\<close> callback,
  which only logs. The returned store is the store once that promise has settled.

  \<open>NextResponse_redirect\<close> is the framework's \<open>NextResponse.redirect(url, 302)\<close>, a
  parameter of the model: \<open>Inr\<close> the value it writes to the Location header, which is
  \<open>String(new URL(url))\<close>, the URL parser's serialisation of the URL and not always the
  text it was given, or \<open>Inl\<close> the error it throws when the URL is not absolute. The
  call stands inside the handler's \<open>try\<close>, after \<open>createScan\<close> was started: when it
  throws, the outer \<open>catch\<close> answers 500 and the scan is recorded all the same.
\<close>

definition redirect_GET ::
  "(string \<Rightarrow> js_error + string) \<Rightarrow> UAParser \<Rightarrow> js_error option \<Rightarrow> js_error option \<Rightarrow> store
     \<Rightarrow> (string \<Rightarrow> string option) \<Rightarrow> string \<Rightarrow> response \<times> store" where
  "redirect_GET NextResponse_redirect parser lookup_fault scan_fault s headers shortCode =
     (case getQRCodeByShortCode s lookup_fault shortCode of
        Inl error \<Rightarrow> (ErrorJson 500 ''Redirect failed'' (Some (err_message error)), s)
      | Inr None \<Rightarrow> (ErrorJson 404 ''QR code not found'' None, s)
      | Inr (Some qrCode) \<Rightarrow>
          (let userAgent = headers ''user-agent'';
               (device_type, browser) = parseUserAgent parser userAgent;
               ip = js_or (headers ''x-forwarded-for'') (headers ''x-real-ip'');
               country = js_or (headers ''x-vercel-ip-country'') None;
               city = js_or (headers ''x-vercel-ip-city'') None;
               truncatedIP = truncateIP ip;
               s' = (case createScan s scan_fault
                            \<lparr> in_qr_code_id = qr_id qrCode, in_user_agent = userAgent,
                               in_ip_address = truncatedIP, in_country = country,
                               in_city = city, in_device_type = Some device_type,
                               in_browser = Some browser \<rparr> of
                       Inl error \<Rightarrow> s
                     | Inr s1 \<Rightarrow> s1)
           in case NextResponse_redirect (target_url qrCode) of
                Inl error \<Rightarrow>
                  (ErrorJson 500 ''Redirect failed'' (Some (err_message error)), s')
              | Inr location \<Rightarrow> (RedirectTo location 302, s')))"

section \<open>Analytics: the queries of src/lib/db.ts and the endpoint\<close>

subsection \<open>parseInt\<close>

text \<open>
  \<open>parseInt(string)\<close> without a radix: leading white space is skipped (among the
  code units below 256 that is TAB, LF, VT, FF, CR, the space and the no-break space), a
  sign is read,
  a prefix \<open>0x\<close> or \<open>0X\<close> selects radix 16, and the longest run of digits of the radix
  is the value; whatever follows is ignored. With no digit the result is NaN (\<open>None\<close>).
  The value is the mathematical integer: the rounding of numbers above \<open>2^53\<close> is not
  modelled.
\<close>

definition is_js_space :: "char \<Rightarrow> bool" where
  "is_js_space c =
     (c \<in> set [CHR 0x09, CHR 0x0A, CHR 0x0B, CHR 0x0C, CHR 0x0D, CHR 0x20, CHR 0xA0])"

definition digit_val :: "char \<Rightarrow> nat" where
  "digit_val c =
     (let n = (of_char c :: nat)
      in if 48 \<le> n \<and> n \<le> 57 then n - 48
         else if 97 \<le> n \<and> n \<le> 122 then n - 87
         else if 65 \<le> n \<and> n \<le> 90 then n - 55
         else 36)"

definition digits_value :: "nat \<Rightarrow> string \<Rightarrow> nat" where
  "digits_value radix ds = foldl (\<lambda>acc c. acc * radix + digit_val c) 0 ds"

definition parseInt :: "string \<Rightarrow> js_number" where
  "parseInt str =
     (let s = dropWhile is_js_space str;
          (sign, s) = (case s of
                         [] \<Rightarrow> (1, s)
                       | c # r \<Rightarrow> if c = CHR ''-'' then (- 1, r)
                                  else if c = CHR ''+'' then (1, r) else (1, s));
          (radix, s) = (if prefix ''0x'' s \<or> prefix ''0X'' s then (16, drop 2 s) else (10, s));
          ds = takeWhile (\<lambda>c. digit_val c < radix) s
      in if ds = [] then None else Some (sign * int (digits_value radix ds)))"

subsection \<open>The aggregate queries\<close>

text \<open>
  \<open>COUNT(*)\<close> is a bigint, which the driver hands over as its decimal text; the
  functions below apply \<open>parseInt\<close> to it, as the source does.

  \<open>GROUP BY key\<close> with \<open>COUNT(*)\<close>: one row per distinct value of the key among the
  selected rows, NULL being a value of its own. SQL leaves the order of the groups open
  where the query has no ORDER BY, and the order among equal sort keys where it has one;
  the model lists the groups in the order \<open>remdups\<close> leaves them and sorts stably.
\<close>

definition group_count :: "('r \<Rightarrow> 'k) \<Rightarrow> 'r list \<Rightarrow> ('k \<times> nat) list" where
  "group_count key rows =
     map (\<lambda>k. (k, length (filter (\<lambda>r. key r = k) rows))) (remdups (map key rows))"

definition COALESCE :: "string option \<Rightarrow> string \<Rightarrow> string" where
  "COALESCE v d = (case v of None \<Rightarrow> d | Some x \<Rightarrow> x)"

text \<open>\<open>DATE(scanned_at)\<close>: the calendar day of a timestamp, as a day number.\<close>

definition DATE :: "nat \<Rightarrow> nat" where
  "DATE t = t div 86400"

definition scans_where :: "store \<Rightarrow> int \<Rightarrow> Scan list" where
  "scans_where s qrCodeId = filter (\<lambda>r. qr_code_id r = qrCodeId) (scans s)"

definition getTotalScans :: "store \<Rightarrow> js_error option \<Rightarrow> int \<Rightarrow> js_error + js_number" where
  "getTotalScans s fault qrCodeId =
     (case fault of
        Some e \<Rightarrow> Inl e
      | None \<Rightarrow> Inr (parseInt (show_nat (length (scans_where s qrCodeId)))))"

definition getScansByDate ::
  "store \<Rightarrow> js_error option \<Rightarrow> int \<Rightarrow> js_error + (nat \<times> js_number) list" where
  "getScansByDate s fault qrCodeId =
     (case fault of
        Some e \<Rightarrow> Inl e
      | None \<Rightarrow>
          (let rows = sort_key fst
                        (group_count (\<lambda>r. DATE (scanned_at r)) (scans_where s qrCodeId))
           in Inr (map (\<lambda>(date, count). (date, parseInt (show_nat count))) rows)))"

text \<open>
  In the next three queries the name after GROUP BY is both a column of \<open>scans\<close> and an
  alias of the select list. PostgreSQL reads an ambiguous GROUP BY name as the input
  column, so the groups are those of the stored value and \<open>COALESCE\<close> is applied to each
  group's key afterwards. In ORDER BY, \<open>count\<close> is the output column.
\<close>

definition getDeviceBreakdown ::
  "store \<Rightarrow> js_error option \<Rightarrow> int \<Rightarrow> js_error + (string \<times> js_number) list" where
  "getDeviceBreakdown s fault qrCodeId =
     (case fault of
        Some e \<Rightarrow> Inl e
      | None \<Rightarrow>
          (let rows = group_count device_type (scans_where s qrCodeId)
           in Inr (map (\<lambda>(k, count). (COALESCE k ''unknown'', parseInt (show_nat count))) rows)))"

definition getBrowserBreakdown ::
  "store \<Rightarrow> js_error option \<Rightarrow> int \<Rightarrow> js_error + (string \<times> js_number) list" where
  "getBrowserBreakdown s fault qrCodeId =
     (case fault of
        Some e \<Rightarrow> Inl e
      | None \<Rightarrow>
          (let rows = take 10 (rev (sort_key snd (group_count browser (scans_where s qrCodeId))))
           in Inr (map (\<lambda>(k, count). (COALESCE k ''unknown'', parseInt (show_nat count))) rows)))"

definition getLocationBreakdown ::
  "store \<Rightarrow> js_error option \<Rightarrow> int \<Rightarrow> js_error + (string \<times> string \<times> js_number) list" where
  "getLocationBreakdown s fault qrCodeId =
     (case fault of
        Some e \<Rightarrow> Inl e
      | None \<Rightarrow>
          (let rows = take 20 (rev (sort_key snd
                        (group_count (\<lambda>r. (country r, city r)) (scans_where s qrCodeId))))
           in Inr (map (\<lambda>((co, ci), count).
                          (COALESCE co ''unknown'', COALESCE ci ''unknown'',
                           parseInt (show_nat count))) rows)))"

subsection \<open>GET /api/analytics/[qrId]\<close>

text \<open>
  \<open>fault k\<close> is the storage failure injected into the k-th query: 0 is the existence
  check, 1 to 5 are the five aggregates. \<open>Promise.all\<close> rejects as soon as one of them
  does; the model reports the first failing query in the order of the array.
\<close>

definition analytics_error_response :: "js_error \<Rightarrow> response" where
  "analytics_error_response error =
     ErrorJson 500 ''Failed to fetch analytics'' (Some (err_message error))"

definition fetch_analytics :: "(nat \<Rightarrow> js_error option) \<Rightarrow> store \<Rightarrow> int \<Rightarrow> js_error + ScanAnalytics" where
  "fetch_analytics fault s qrId =
     (case getTotalScans s (fault 1) qrId of
        Inl e \<Rightarrow> Inl e
      | Inr totalScans \<Rightarrow>
     (case getScansByDate s (fault 2) qrId of
        Inl e \<Rightarrow> Inl e
      | Inr scansByDate \<Rightarrow>
     (case getDeviceBreakdown s (fault 3) qrId of
        Inl e \<Rightarrow> Inl e
      | Inr deviceBreakdown \<Rightarrow>
     (case getBrowserBreakdown s (fault 4) qrId of
        Inl e \<Rightarrow> Inl e
      | Inr browserBreakdown \<Rightarrow>
     (case getLocationBreakdown s (fault 5) qrId of
        Inl e \<Rightarrow> Inl e
      | Inr locationBreakdown \<Rightarrow>
          Inr \<lparr> total_scans = totalScans, scans_by_date = scansByDate,
                device_breakdown = deviceBreakdown, browser_breakdown = browserBreakdown,
                location_breakdown = locationBreakdown \<rparr>)))))"

definition analytics_GET :: "(nat \<Rightarrow> js_error option) \<Rightarrow> store \<Rightarrow> string \<Rightarrow> response" where
  "analytics_GET fault s qrId_param =
     (case parseInt qrId_param of
        None \<Rightarrow> ErrorJson 400 ''Invalid QR code ID'' None
      | Some qrId \<Rightarrow>
          (case getQRCodeById s (fault 0) qrId of
             Inl error \<Rightarrow> analytics_error_response error
           | Inr None \<Rightarrow> ErrorJson 404 ''QR code not found'' None
           | Inr (Some qrCode) \<Rightarrow>
               (case fetch_analytics fault s qrId of
                  Inl error \<Rightarrow> analytics_error_response error
                | Inr analytics \<Rightarrow> AnalyticsJson 200 analytics)))"

section \<open>Vocabulary for the properties\<close>

text \<open>
  The k-th persistence attempt of an issuance that starts in store \<open>s\<close> and has seen
  only failed inserts so far (a failed insert leaves the store as it was): the call of
  \<open>createQRCode\<close> with the k-th generated code. \<open>duplicate_at\<close> says that this attempt
  fails and the inner \<open>catch\<close> takes the error for a duplicate short code. \<open>render\<close> is
  the call of the QR renderer that follows a successful k-th attempt.
\<close>

definition attempt :: "gen_env \<Rightarrow> GenerateQRInput \<Rightarrow> store \<Rightarrow> nat \<Rightarrow> js_error + (QRCode \<times> store)" where
  "attempt E v s k =
     createQRCode s (insert_fault E k) (nanoid E k) (targetUrl v) (fgColor v) (bgColor v)"

definition duplicate_at :: "gen_env \<Rightarrow> GenerateQRInput \<Rightarrow> store \<Rightarrow> nat \<Rightarrow> bool" where
  "duplicate_at E v s k = (case attempt E v s k of Inl e \<Rightarrow> is_duplicate_key e | Inr r \<Rightarrow> False)"

definition render :: "gen_env \<Rightarrow> GenerateQRInput \<Rightarrow> nat \<Rightarrow> js_error + string" where
  "render E v k = toDataURL E (getBaseURL E @ ''/r/'' @ nanoid E k) (fgColor v) (bgColor v)"

subsection \<open>Concrete inputs\<close>

text \<open>Two stand-ins for the user-agent library: one detects nothing, one reads tokens.\<close>

definition no_detection :: UAParser where
  "no_detection = \<lparr> getDevice_type = (\<lambda>ua. None), getBrowser_name = (\<lambda>ua. None) \<rparr>"

definition token_parser :: UAParser where
  "token_parser =
     \<lparr> getDevice_type = (\<lambda>ua. if js_includes ua ''iPhone'' then Some ''mobile''
                                else if js_includes ua ''iPad'' then Some ''tablet''
                                else if js_includes ua ''Watch'' then Some ''wearable''
                                else None),
        getBrowser_name = (\<lambda>ua. if js_includes ua ''Safari'' then Some ''Safari'' else None) \<rparr>"

text \<open>A store with the first row of db/seed.sql and no scans.\<close>

definition seed_qr :: QRCode where
  "seed_qr = \<lparr> qr_id = 1, short_code = ''abc123xyz'', target_url = ''https://example.com'',
               fg_color = ''#000000'', bg_color = ''#FFFFFF'', created_at = 3600,
               scan_count = 0 \<rparr>"

definition seed_store :: store where
  "seed_store = \<lparr> qr_codes = [seed_qr], scans = [], qr_codes_id_seq = 2, scans_id_seq = 1,
                  db_now = 90000 \<rparr>"

definition iphone_headers :: "string \<Rightarrow> string option" where
  "iphone_headers name =
     (if name = ''user-agent'' then Some ''Mozilla/5.0 (iPhone) Safari''
      else if name = ''x-forwarded-for'' then Some ''192.168.1.100''
      else if name = ''x-vercel-ip-country'' then Some ''US''
      else None)"

definition github_body :: GenerateQRBody where
  "github_body = \<lparr> body_targetUrl = Some ''https://github.com'', body_fgColor = None,
                   body_bgColor = Some ''#E0E0E0'' \<rparr>"

definition github_input :: GenerateQRInput where
  "github_input = \<lparr> targetUrl = ''https://github.com'', fgColor = ''#000000'',
                    bgColor = ''#E0E0E0'' \<rparr>"

text \<open>The row that issuing \<open>github_body\<close> adds to \<open>seed_store\<close>, and the store then.\<close>

definition github_qr :: QRCode where
  "github_qr = \<lparr> qr_id = 2, short_code = ''Zk3_qP-x7A'', target_url = ''https://github.com'',
                 fg_color = ''#000000'', bg_color = ''#E0E0E0'', created_at = 90000,
                 scan_count = 0 \<rparr>"

definition store_with_github :: store where
  "store_with_github = \<lparr> qr_codes = [seed_qr, github_qr], scans = [], qr_codes_id_seq = 3,
                         scans_id_seq = 1, db_now = 90000 \<rparr>"

text \<open>
  An environment whose first generated code is the one already stored and whose later
  codes are new; one that generates the stored code every time; one that loses the
  database at the second attempt; one whose renderer throws.
\<close>

definition retry_env :: gen_env where
  "retry_env = \<lparr> is_url = (\<lambda>u. prefix ''https://'' u),
                 nanoid = (\<lambda>k. if k = 0 then ''abc123xyz'' else ''Zk3_qP-x7A''),
                 insert_fault = (\<lambda>k. None),
                 toDataURL = (\<lambda>text fg bg. Inr (''data:image/png;base64,'' @ text)),
                 NEXT_PUBLIC_BASE_URL = None \<rparr>"

definition stuck_env :: gen_env where
  "stuck_env = retry_env \<lparr> nanoid := (\<lambda>k. ''abc123xyz'') \<rparr>"

definition outage_env :: gen_env where
  "outage_env = retry_env \<lparr> insert_fault :=
     (\<lambda>k. if k = 1 then Some (new_Error ''Connection terminated unexpectedly'') else None) \<rparr>"

definition broken_renderer_env :: gen_env where
  "broken_renderer_env = retry_env \<lparr> toDataURL :=
     (\<lambda>text fg bg. Inl (new_Error ''canvas unavailable'')) \<rparr>"

text \<open>
  A stand-in for \<open>NextResponse.redirect\<close> on the URLs used below: an https URL without
  a path gets the path \<open>/\<close>, an https URL with a path is kept, and a text that is not an
  https URL is refused as not absolute. (The real function accepts other schemes too
  and normalises more.)
\<close>

definition https_redirect :: "string \<Rightarrow> js_error + string" where
  "https_redirect url =
     (if prefix ''https://'' url \<and> drop 8 url \<noteq> [] then
        (if CHR ''/'' \<in> set (drop 8 url) then Inr url else Inr (url @ ''/''))
      else Inl (new_Error ''URL is malformed''))"

text \<open>
  An environment whose first generated code is new, and a store that holds, beside the
  seeded row, a row whose target is not a URL (the column only asks for a non-empty
  text).
\<close>

definition fresh_env :: gen_env where
  "fresh_env = retry_env \<lparr> nanoid := (\<lambda>k. ''Zk3_qP-x7A'') \<rparr>"

definition text_qr :: QRCode where
  "text_qr = \<lparr> qr_id = 2, short_code = ''def456uvw'', target_url = ''not a url'',
               fg_color = ''#FF0000'', bg_color = ''#FFFF00'', created_at = 3600,
               scan_count = 0 \<rparr>"

definition store_with_text_target :: store where
  "store_with_text_target = seed_store \<lparr> qr_codes := [seed_qr, text_qr], qr_codes_id_seq := 3 \<rparr>"

text \<open>
  A decimal digit, and two rows of \<open>scans\<close> for the seeded QR code: one as a bare
  \<open>INSERT INTO scans (qr_code_id)\<close> leaves it, with every nullable column NULL, and one
  as the redirect handler records a request that carries no headers.
\<close>

definition is_decimal_digit :: "char \<Rightarrow> bool" where
  "is_decimal_digit c = (48 \<le> (of_char c :: nat) \<and> (of_char c :: nat) \<le> 57)"

definition bare_scan :: Scan where
  "bare_scan = \<lparr> scan_id = 1, qr_code_id = 1, scanned_at = 4000, user_agent = None,
                 ip_address = None, country = None, city = None, device_type = None,
                 browser = None \<rparr>"

definition headerless_scan :: Scan where
  "headerless_scan = \<lparr> scan_id = 2, qr_code_id = 1, scanned_at = 90000, user_agent = None,
                       ip_address = None, country = None, city = None,
                       device_type = Some ''unknown'', browser = Some ''unknown'' \<rparr>"

definition scanned_store :: store where
  "scanned_store = seed_store \<lparr> scans := [bare_scan, headerless_scan], scans_id_seq := 3 \<rparr>"

section \<open>Properties\<close>

declare issue_loop.simps [simp del]
declare show_nat.simps [simp del]

subsection \<open>PrivacyFilter: truncateIP\<close>

lemma js_includes_single: "js_includes s [c] = (c \<in> set s)"
  by (induction s) auto

lemma split_on_notin: "c \<notin> set s \<Longrightarrow> split_on c s = [s]"
  by (induction s) auto

lemma split_on_append: "c \<notin> set a \<Longrightarrow> split_on c (a @ c # r) = a # split_on c r"
  by (induction a) auto

lemma truncateIP_dotted_quad:
  assumes "CHR ''.'' \<notin> set a" "CHR ''.'' \<notin> set b" "CHR ''.'' \<notin> set c" "CHR ''.'' \<notin> set d"
  shows "truncateIP (Some (a @ ''.'' @ b @ ''.'' @ c @ ''.'' @ d))
           = Some (a @ ''.'' @ b @ ''.'' @ c @ ''.0'')"
proof -
  let ?ip = "a @ ''.'' @ b @ ''.'' @ c @ ''.'' @ d"
  have sp: "split_on CHR ''.'' ?ip = [a, b, c, d]"
    using assms by (simp add: split_on_append split_on_notin)
  have inc: "js_includes ?ip ''.''"
    by (simp add: js_includes_single)
  have ne: "?ip \<noteq> []" by simp
  show ?thesis
    unfolding truncateIP_def using sp inc ne
    by (simp add: js_set_index_def)
qed

lemma truncateIP_colon:
  assumes "ip \<noteq> []" "CHR ''.'' \<notin> set ip" "CHR '':'' \<in> set ip"
  shows "truncateIP (Some ip)
           = Some (js_join '':'' (map Some (take 4 (split_on CHR '':'' ip))) @ ''::'')"
  using assms by (simp add: truncateIP_def js_includes_single take_map)

lemma truncateIP_four_groups:
  assumes "CHR '':'' \<notin> set g1" "CHR '':'' \<notin> set g2" "CHR '':'' \<notin> set g3" "CHR '':'' \<notin> set g4"
    and "CHR ''.'' \<notin> set (g1 @ g2 @ g3 @ g4 @ rest)"
  shows "truncateIP (Some (g1 @ '':'' @ g2 @ '':'' @ g3 @ '':'' @ g4 @ '':'' @ rest))
           = Some (g1 @ '':'' @ g2 @ '':'' @ g3 @ '':'' @ g4 @ ''::'')"
proof -
  let ?ip = "g1 @ '':'' @ g2 @ '':'' @ g3 @ '':'' @ g4 @ '':'' @ rest"
  have sp: "split_on CHR '':'' ?ip = g1 # g2 # g3 # g4 # split_on CHR '':'' rest"
    using assms by (simp add: split_on_append)
  have "truncateIP (Some ?ip) = Some (js_join '':'' (map Some (take 4 (split_on CHR '':'' ?ip))) @ ''::'')"
    using assms by (intro truncateIP_colon) auto
  then show ?thesis using sp by (simp add: eval_nat_numeral)
qed

lemma truncateIP_other:
  assumes "ip \<noteq> []" "CHR ''.'' \<notin> set ip" "CHR '':'' \<notin> set ip"
  shows "truncateIP (Some ip) = Some ip"
  using assms by (simp add: truncateIP_def js_includes_single)

text \<open>
  C6, as stated, fails: an input that is neither a dotted quad nor colon-delimited is not
  always returned unchanged. The two-segment input \<open>1.2\<close> comes back as \<open>1.2..0\<close>
  (the write to index 3 extends the array), and the empty string comes back as null.
\<close>

theorem truncateIP_other_format_counterexample:
  "truncateIP (Some ''1.2'') = Some ''1.2..0'' \<and> truncateIP (Some '''') = None"
  by (simp add: truncateIP_def js_set_index_def)



text \<open>
  C6, amended: null and the empty string give null; an address of exactly four
  dot-separated segments has its last segment replaced by 0; an input without a dot that
  contains a colon is cut to its first four colon-separated groups followed by \<open>::\<close>
  (the remainder is dropped); a non-empty input with neither a dot nor a colon is
  returned unchanged.
\<close>

theorem truncateIP_by_format:
  "truncateIP None = None \<and>
   truncateIP (Some []) = None \<and>
   truncateIP (Some ''192.168.1.100'') = Some ''192.168.1.0'' \<and>
   (CHR ''.'' \<notin> set a \<and> CHR ''.'' \<notin> set b \<and> CHR ''.'' \<notin> set c \<and> CHR ''.'' \<notin> set d \<longrightarrow>
      truncateIP (Some (a @ ''.'' @ b @ ''.'' @ c @ ''.'' @ d))
        = Some (a @ ''.'' @ b @ ''.'' @ c @ ''.0'')) \<and>
   (ip6 \<noteq> [] \<and> CHR ''.'' \<notin> set ip6 \<and> CHR '':'' \<in> set ip6 \<longrightarrow>
      truncateIP (Some ip6)
        = Some (js_join '':'' (map Some (take 4 (split_on CHR '':'' ip6))) @ ''::'')) \<and>
   (CHR '':'' \<notin> set g1 \<and> CHR '':'' \<notin> set g2 \<and> CHR '':'' \<notin> set g3 \<and> CHR '':'' \<notin> set g4 \<and>
    CHR ''.'' \<notin> set (g1 @ g2 @ g3 @ g4 @ rest) \<longrightarrow>
      truncateIP (Some (g1 @ '':'' @ g2 @ '':'' @ g3 @ '':'' @ g4 @ '':'' @ rest))
        = Some (g1 @ '':'' @ g2 @ '':'' @ g3 @ '':'' @ g4 @ ''::'')) \<and>
   (other \<noteq> [] \<and> CHR ''.'' \<notin> set other \<and> CHR '':'' \<notin> set other \<longrightarrow>
      truncateIP (Some other) = Some other)"
proof (intro conjI impI)
  show "truncateIP None = None" by (simp add: truncateIP_def)
  show "truncateIP (Some []) = None" by (simp add: truncateIP_def)
  show "truncateIP (Some ''192.168.1.100'') = Some ''192.168.1.0''"
    by (simp add: truncateIP_def js_set_index_def)
next
  assume "CHR ''.'' \<notin> set a \<and> CHR ''.'' \<notin> set b \<and> CHR ''.'' \<notin> set c \<and> CHR ''.'' \<notin> set d"
  then show "truncateIP (Some (a @ ''.'' @ b @ ''.'' @ c @ ''.'' @ d))
        = Some (a @ ''.'' @ b @ ''.'' @ c @ ''.0'')"
    by (intro truncateIP_dotted_quad) simp_all
next
  assume "ip6 \<noteq> [] \<and> CHR ''.'' \<notin> set ip6 \<and> CHR '':'' \<in> set ip6"
  then show "truncateIP (Some ip6)
        = Some (js_join '':'' (map Some (take 4 (split_on CHR '':'' ip6))) @ ''::'')"
    by (intro truncateIP_colon) simp_all
next
  assume "CHR '':'' \<notin> set g1 \<and> CHR '':'' \<notin> set g2 \<and> CHR '':'' \<notin> set g3 \<and> CHR '':'' \<notin> set g4 \<and>
    CHR ''.'' \<notin> set (g1 @ g2 @ g3 @ g4 @ rest)"
  then show "truncateIP (Some (g1 @ '':'' @ g2 @ '':'' @ g3 @ '':'' @ g4 @ '':'' @ rest))
        = Some (g1 @ '':'' @ g2 @ '':'' @ g3 @ '':'' @ g4 @ ''::'')"
    by (intro truncateIP_four_groups) simp_all
next
  assume "other \<noteq> [] \<and> CHR ''.'' \<notin> set other \<and> CHR '':'' \<notin> set other"
  then show "truncateIP (Some other) = Some other"
    by (intro truncateIP_other) simp_all
qed

theorem truncateIP_by_format_witness:
  "truncateIP (Some ''10.20.30.40'') = Some ''10.20.30.0'' \<and>
   truncateIP (Some ''::1'') = Some ''::1::'' \<and>
   truncateIP (Some ''2001:db8:85a3:0:0:8a2e:370:7334'') = Some ''2001:db8:85a3:0::'' \<and>
   truncateIP (Some ''localhost'') = Some ''localhost''"
  using truncateIP_by_format [of "''10''" "''20''" "''30''" "''40''" "''::1''"
           "''2001''" "''db8''" "''85a3''" "''0''" "''0:8a2e:370:7334''" "''localhost''"]
  by simp

subsection \<open>The issuance loop\<close>

lemma createQRCode_Inr:
  assumes "createQRCode s f c u fg bg = Inr (q, s')"
  shows "s' = s\<lparr> qr_codes := qr_codes s @ [q], qr_codes_id_seq := qr_codes_id_seq s + 1 \<rparr>"
    and "short_code q = c" and "target_url q = u"
    and "c \<notin> set (map short_code (qr_codes s))"
  using assms
  by (auto simp: createQRCode_def Let_def split: option.splits if_splits)

lemma find_appended_row:
  "c \<notin> set (map short_code qs) \<Longrightarrow> short_code q = c
     \<Longrightarrow> find (\<lambda>x. short_code x = c) (qs @ [q]) = Some q"
  by (induction qs) auto

lemma render_error_not_duplicate:
  "\<not> is_duplicate_key (new_Error ''Failed to generate QR code'')"
  by (simp add: is_duplicate_key_def new_Error_def)

lemma try_issue_Inl:
  "attempt E v s k = Inl e \<Longrightarrow> try_issue E v s (nanoid E k) k = (Inl e, s)"
  by (simp add: try_issue_def attempt_def)

lemma try_issue_render_fails:
  "attempt E v s k = Inr (q, s1) \<Longrightarrow> render E v k = Inl e
     \<Longrightarrow> try_issue E v s (nanoid E k) k = (Inl (new_Error ''Failed to generate QR code''), s1)"
  by (simp add: try_issue_def attempt_def render_def generateQRCodeDataURL_def Let_def)

lemma try_issue_ok:
  "attempt E v s k = Inr (q, s1) \<Longrightarrow> render E v k = Inr img
     \<Longrightarrow> try_issue E v s (nanoid E k) k =
          (Inr (GeneratedJson 201
             \<lparr> resp_id = qr_id q, resp_short_code = nanoid E k,
                resp_short_url = getBaseURL E @ ''/r/'' @ nanoid E k,
                resp_qr_code_data_url = img,
                resp_analytics_url = getBaseURL E @ ''/analytics/'' @ show_int (qr_id q) \<rparr>), s1)"
  by (simp add: try_issue_def attempt_def render_def generateQRCodeDataURL_def Let_def)

lemma try_issue_Inr:
  assumes "try_issue E v s c a = (Inr resp, s')"
  shows "\<exists>r q. resp = GeneratedJson 201 r \<and> resp_short_code r = c \<and>
           find (\<lambda>x. short_code x = c) (qr_codes s') = Some q \<and> target_url q = targetUrl v"
proof -
  from assms obtain q where
    c: "createQRCode s (insert_fault E a) c (targetUrl v) (fgColor v) (bgColor v) = Inr (q, s')"
    and r: "\<exists>r. resp = GeneratedJson 201 r \<and> resp_short_code r = c"
    by (auto simp: try_issue_def Let_def split: sum.splits prod.splits)
  from createQRCode_Inr [OF c] have
    "find (\<lambda>x. short_code x = c) (qr_codes s') = Some q" "target_url q = targetUrl v"
    by (simp_all add: find_appended_row)
  with r show ?thesis by blast
qed

lemma issue_loop_Inr:
  "issue_loop E v s c a tr = (Inr resp, s', tr')
     \<Longrightarrow> \<exists>r q. resp = GeneratedJson 201 r \<and>
           find (\<lambda>x. short_code x = resp_short_code r) (qr_codes s') = Some q \<and>
           target_url q = targetUrl v"
proof (induction E v s c a tr rule: issue_loop.induct)
  case (1 E v s c a tr)
  show ?case
  proof (cases "a < MAX_ATTEMPTS")
    case False
    with "1.prems" show ?thesis by (simp add: issue_loop.simps)
  next
    case True
    obtain res s1 where t: "try_issue E v s c a = (res, s1)" by (cases "try_issue E v s c a")
    show ?thesis
    proof (cases res)
      case (Inr resp1)
      with "1.prems" True t have "resp = resp1" "s' = s1"
        by (simp_all add: issue_loop.simps)
      with try_issue_Inr t Inr show ?thesis by blast
    next
      case (Inl err)
      with "1.prems" True t have d: "is_duplicate_key err"
        and "issue_loop E v s1 (nanoid E (Suc a)) (Suc a) (tr @ [c]) = (Inr resp, s', tr')"
        by (auto simp: issue_loop.simps split: if_splits)
      with "1.IH" [OF True t [symmetric] Inl] show ?thesis by simp
    qed
  qed
qed

lemma issue_loop_bound:
  "length (snd (snd (issue_loop E v s c a tr))) \<le> length tr + (MAX_ATTEMPTS - a)"
proof (induction E v s c a tr rule: issue_loop.induct)
  case (1 E v s c a tr)
  show ?case
  proof (cases "a < MAX_ATTEMPTS")
    case False
    then show ?thesis by (simp add: issue_loop.simps)
  next
    case True
    obtain res s1 where t: "try_issue E v s c a = (res, s1)" by (cases "try_issue E v s c a")
    show ?thesis
    proof (cases res)
      case (Inr resp1)
      with True t show ?thesis by (simp add: issue_loop.simps)
    next
      case (Inl err)
      show ?thesis
      proof (cases "is_duplicate_key err")
        case False
        with True t Inl show ?thesis by (simp add: issue_loop.simps)
      next
        case d: True
        from "1.IH" [OF True t [symmetric] Inl d] True
        have "length (snd (snd (issue_loop E v s1 (nanoid E (Suc a)) (Suc a) (tr @ [c]))))
                \<le> length tr + (MAX_ATTEMPTS - a)"
          by simp
        moreover have "issue_loop E v s c a tr
                         = issue_loop E v s1 (nanoid E (Suc a)) (Suc a) (tr @ [c])"
          using True t Inl d by (simp add: issue_loop.simps)
        ultimately show ?thesis by simp
      qed
    qed
  qed
qed

lemma issue_loop_reaches:
  "k \<le> MAX_ATTEMPTS \<Longrightarrow> (\<forall>j<k. duplicate_at E v s j)
     \<Longrightarrow> issue_loop E v s (nanoid E 0) 0 []
           = issue_loop E v s (nanoid E k) k (map (nanoid E) [0..<k])"
proof (induction k)
  case 0
  show ?case by simp
next
  case (Suc k)
  then have k: "k < MAX_ATTEMPTS" and d: "duplicate_at E v s k" by simp_all
  from d obtain e where e: "attempt E v s k = Inl e" "is_duplicate_key e"
    by (auto simp: duplicate_at_def split: sum.splits)
  have "issue_loop E v s (nanoid E k) k (map (nanoid E) [0..<k])
          = issue_loop E v s (nanoid E (Suc k)) (Suc k) (map (nanoid E) [0..<k] @ [nanoid E k])"
    using k e try_issue_Inl [OF e(1)] by (subst issue_loop.simps) simp
  with Suc show ?case by simp
qed

lemma generate_POST_valid:
  assumes "generateQRSchema_parse (is_url E) body = Inr v"
  shows "generate_POST E s (Inr body) =
           (case issue_loop E v s (nanoid E 0) 0 [] of
              (Inl error, s', tried) \<Rightarrow> (generate_error_response error, s', tried)
            | (Inr resp, s', tried) \<Rightarrow> (resp, s', tried))"
  using assms by (simp add: generate_POST_def)

lemma issue_loop_exhausted:
  assumes "\<forall>j<MAX_ATTEMPTS. duplicate_at E v s j"
  shows "issue_loop E v s (nanoid E 0) 0 []
           = (Inl (new_Error ''Failed to generate unique short code''), s,
              map (nanoid E) [0..<MAX_ATTEMPTS])"
proof -
  have "issue_loop E v s (nanoid E 0) 0 []
          = issue_loop E v s (nanoid E MAX_ATTEMPTS) MAX_ATTEMPTS (map (nanoid E) [0..<MAX_ATTEMPTS])"
    using assms by (intro issue_loop_reaches) simp_all
  then show ?thesis by (simp add: issue_loop.simps)
qed

lemma issue_loop_abort:
  assumes "k < MAX_ATTEMPTS" "\<forall>j<k. duplicate_at E v s j"
    and "attempt E v s k = Inl e" "\<not> is_duplicate_key e"
  shows "issue_loop E v s (nanoid E 0) 0 [] = (Inl e, s, map (nanoid E) [0..<Suc k])"
proof -
  have "issue_loop E v s (nanoid E 0) 0 []
          = issue_loop E v s (nanoid E k) k (map (nanoid E) [0..<k])"
    using assms by (intro issue_loop_reaches) simp_all
  also have "\<dots> = (Inl e, s, map (nanoid E) [0..<k] @ [nanoid E k])"
    using assms try_issue_Inl [OF assms(3)] by (subst issue_loop.simps) simp
  finally show ?thesis by simp
qed

lemma issue_loop_render_fails:
  assumes "k < MAX_ATTEMPTS" "\<forall>j<k. duplicate_at E v s j"
    and "attempt E v s k = Inr (q, s1)" "render E v k = Inl e"
  shows "issue_loop E v s (nanoid E 0) 0 []
           = (Inl (new_Error ''Failed to generate QR code''), s1, map (nanoid E) [0..<Suc k])"
proof -
  have "issue_loop E v s (nanoid E 0) 0 []
          = issue_loop E v s (nanoid E k) k (map (nanoid E) [0..<k])"
    using assms by (intro issue_loop_reaches) simp_all
  also have "\<dots> = (Inl (new_Error ''Failed to generate QR code''), s1,
                     map (nanoid E) [0..<k] @ [nanoid E k])"
    using assms(1) try_issue_render_fails [OF assms(3,4)] render_error_not_duplicate
    by (subst issue_loop.simps) simp
  finally show ?thesis by simp
qed

lemma issue_loop_success:
  assumes "k < MAX_ATTEMPTS" "\<forall>j<k. duplicate_at E v s j"
    and "attempt E v s k = Inr (q, s1)" "render E v k = Inr img"
  shows "issue_loop E v s (nanoid E 0) 0 []
           = (Inr (GeneratedJson 201
                \<lparr> resp_id = qr_id q, resp_short_code = nanoid E k,
                   resp_short_url = getBaseURL E @ ''/r/'' @ nanoid E k,
                   resp_qr_code_data_url = img,
                   resp_analytics_url = getBaseURL E @ ''/analytics/'' @ show_int (qr_id q) \<rparr>),
              s1, map (nanoid E) [0..<Suc k])"
proof -
  have "issue_loop E v s (nanoid E 0) 0 []
          = issue_loop E v s (nanoid E k) k (map (nanoid E) [0..<k])"
    using assms by (intro issue_loop_reaches) simp_all
  also have "\<dots> = (Inr (GeneratedJson 201
                \<lparr> resp_id = qr_id q, resp_short_code = nanoid E k,
                   resp_short_url = getBaseURL E @ ''/r/'' @ nanoid E k,
                   resp_qr_code_data_url = img,
                   resp_analytics_url = getBaseURL E @ ''/analytics/'' @ show_int (qr_id q) \<rparr>),
              s1, map (nanoid E) [0..<k] @ [nanoid E k])"
    using assms(1) try_issue_ok [OF assms(3,4)]
    by (subst issue_loop.simps) simp
  finally show ?thesis by simp
qed

lemma hex_color_length: "hex_color c \<Longrightarrow> length c = 7"
  by (auto simp: hex_color_def split: list.splits)

lemma parse_valid:
  assumes "generateQRSchema_parse u body = Inr v"
  shows "hex_color (fgColor v)" "hex_color (bgColor v)" "body_targetUrl body = Some (targetUrl v)"
        "u (targetUrl v)"
  using assms
  by (auto simp: generateQRSchema_parse_def Let_def split: option.splits if_splits)

lemma collision_is_duplicate:
  assumes "generateQRSchema_parse (is_url E) body = Inr v"
    and "insert_fault E k = None" "nanoid E k \<in> set (map short_code (qr_codes s))"
    and "length (nanoid E k) \<le> 21" "targetUrl v \<noteq> []"
  shows "duplicate_at E v s k"
  using assms(2-) parse_valid(1,2) [OF assms(1)]
  by (simp add: duplicate_at_def attempt_def createQRCode_def hex_color_length
        is_duplicate_key_def pg_error_def)

subsection \<open>The concrete inputs, evaluated\<close>

lemma parse_github:
  "is_url E = is_url retry_env \<Longrightarrow> generateQRSchema_parse (is_url E) github_body = Inr github_input"
  by (simp add: generateQRSchema_parse_def retry_env_def github_body_def github_input_def
        hex_color_def is_hex_digit_def)

lemma seed_collision:
  "insert_fault E k = None \<Longrightarrow> nanoid E k = ''abc123xyz''
     \<Longrightarrow> duplicate_at E github_input seed_store k"
  by (simp add: duplicate_at_def attempt_def createQRCode_def github_input_def hex_color_def
        is_hex_digit_def seed_store_def seed_qr_def is_duplicate_key_def pg_error_def)

lemma github_insert:
  "insert_fault E k = None \<Longrightarrow> nanoid E k = ''Zk3_qP-x7A''
     \<Longrightarrow> attempt E github_input seed_store k = Inr (github_qr, store_with_github)"
  by (simp add: attempt_def createQRCode_def github_input_def hex_color_def
        is_hex_digit_def seed_store_def seed_qr_def github_qr_def store_with_github_def Let_def)

lemma seed_lookup: "getQRCodeByShortCode seed_store None ''abc123xyz'' = Inr (Some seed_qr)"
  by (simp add: getQRCodeByShortCode_def seed_store_def seed_qr_def)

subsection \<open>ShortCodeRegistry and RedirectHandler\<close>

lemma text_lookup:
  "getQRCodeByShortCode store_with_text_target None ''def456uvw'' = Inr (Some text_qr)"
  by (simp add: getQRCodeByShortCode_def store_with_text_target_def seed_store_def seed_qr_def
        text_qr_def)

lemma github_lookup:
  "getQRCodeByShortCode store_with_github None ''Zk3_qP-x7A'' = Inr (Some github_qr)"
  by (simp add: getQRCodeByShortCode_def store_with_github_def seed_qr_def github_qr_def)

lemma redirect_GET_hit:
  assumes "getQRCodeByShortCode s None shortCode = Inr (Some qrCode)"
  shows "fst (redirect_GET redirect parser None scan_fault s headers shortCode)
           = (case redirect (target_url qrCode) of
                Inl error \<Rightarrow> ErrorJson 500 ''Redirect failed'' (Some (err_message error))
              | Inr location \<Rightarrow> RedirectTo location 302)"
  using assms
  by (simp add: redirect_GET_def Let_def split: prod.splits sum.splits)

lemma show_int_2: "show_int 2 = ''2''"
  by code_simp

lemma fresh_issue:
  "generate_POST fresh_env seed_store (Inr github_body)
     = (GeneratedJson 201
          \<lparr> resp_id = 2, resp_short_code = ''Zk3_qP-x7A'',
             resp_short_url = ''http://localhost:3000/r/Zk3_qP-x7A'',
             resp_qr_code_data_url = ''data:image/png;base64,http://localhost:3000/r/Zk3_qP-x7A'',
             resp_analytics_url = ''http://localhost:3000/analytics/2'' \<rparr>,
        store_with_github, [''Zk3_qP-x7A''])"
proof -
  have p: "generateQRSchema_parse (is_url fresh_env) github_body = Inr github_input"
    by (simp add: parse_github fresh_env_def)
  have n: "nanoid fresh_env 0 = ''Zk3_qP-x7A''"
    and b: "getBaseURL fresh_env = ''http://localhost:3000''"
    by (simp_all add: fresh_env_def retry_env_def getBaseURL_def js_or_def)
  have a: "attempt fresh_env github_input seed_store 0 = Inr (github_qr, store_with_github)"
    by (simp add: github_insert fresh_env_def retry_env_def)
  have r: "render fresh_env github_input 0
             = Inr ''data:image/png;base64,http://localhost:3000/r/Zk3_qP-x7A''"
    by (simp add: render_def fresh_env_def retry_env_def getBaseURL_def js_or_def)
  have "issue_loop fresh_env github_input seed_store (nanoid fresh_env 0) 0 []
     = (Inr (GeneratedJson 201
         \<lparr> resp_id = 2, resp_short_code = ''Zk3_qP-x7A'',
            resp_short_url = ''http://localhost:3000/r/Zk3_qP-x7A'',
            resp_qr_code_data_url = ''data:image/png;base64,http://localhost:3000/r/Zk3_qP-x7A'',
            resp_analytics_url = ''http://localhost:3000/analytics/2'' \<rparr>),
        store_with_github, [''Zk3_qP-x7A''])"
    using issue_loop_success [of 0, OF _ _ a r] by (simp add: n b github_qr_def show_int_2)
  then show ?thesis
    by (simp add: generate_POST_valid [OF p])
qed

text \<open>
  C1, as stated, fails: the Location of the redirect is not always exactly the target
  URL that was issued. The handler hands the stored URL to \<open>NextResponse.redirect\<close>,
  which writes the URL parser's serialisation of it: \<open>https://github.com\<close> is issued
  (first code free, id 2) and the redirect goes to \<open>https://github.com/\<close>.
\<close>

theorem issue_then_redirect_counterexample:
  "body_targetUrl github_body = Some ''https://github.com'' \<and>
   generate_POST fresh_env seed_store (Inr github_body)
     = (GeneratedJson 201
          \<lparr> resp_id = 2, resp_short_code = ''Zk3_qP-x7A'',
             resp_short_url = ''http://localhost:3000/r/Zk3_qP-x7A'',
             resp_qr_code_data_url = ''data:image/png;base64,http://localhost:3000/r/Zk3_qP-x7A'',
             resp_analytics_url = ''http://localhost:3000/analytics/2'' \<rparr>,
        store_with_github, [''Zk3_qP-x7A'']) \<and>
   fst (redirect_GET https_redirect token_parser None None store_with_github iphone_headers
          ''Zk3_qP-x7A'')
     = RedirectTo ''https://github.com/'' 302"
proof -
  have "body_targetUrl github_body = Some ''https://github.com''"
    by (simp add: github_body_def)
  moreover have "fst (redirect_GET https_redirect token_parser None None store_with_github
                        iphone_headers ''Zk3_qP-x7A'')
                   = RedirectTo ''https://github.com/'' 302"
    by (simp add: redirect_GET_hit [OF github_lookup] github_qr_def https_redirect_def)
  ultimately show ?thesis
    using fresh_issue by simp
qed

text \<open>
  C1, amended: whenever the generate endpoint answers 201, the redirect handler, run on
  the store the issuance left and given the short code of the response, hands the
  target URL of the request body to \<open>NextResponse.redirect\<close> and answers with the 302
  redirect whose Location is what that call makes of it, the serialisation of the
  issued URL (the lookup itself not failing, whatever the headers and whether or not the
  scan write fails).
\<close>

theorem issue_then_redirect_roundtrip:
  assumes "generate_POST E s (Inr body) = (GeneratedJson st r, s', tried)"
  shows "\<exists>url. body_targetUrl body = Some url \<and>
           (redirect url = Inr location \<longrightarrow>
              fst (redirect_GET redirect parser None scan_fault s' headers (resp_short_code r))
                = RedirectTo location 302)"
proof -
  from assms obtain v where v: "generateQRSchema_parse (is_url E) body = Inr v"
    by (auto simp: generate_POST_def generate_error_response_def split: sum.splits if_splits)
  then have u: "body_targetUrl body = Some (targetUrl v)"
    by (rule parse_valid)
  from assms have "issue_loop E v s (nanoid E 0) 0 [] = (Inr (GeneratedJson st r), s', tried)"
    by (auto simp: generate_POST_valid [OF v] generate_error_response_def
             split: sum.splits prod.splits if_splits)
  from issue_loop_Inr [OF this] obtain q where
    q: "find (\<lambda>x. short_code x = resp_short_code r) (qr_codes s') = Some q"
       "target_url q = targetUrl v"
    by auto
  then have "getQRCodeByShortCode s' None (resp_short_code r) = Inr (Some q)"
    by (simp add: getQRCodeByShortCode_def)
  from redirect_GET_hit [OF this] q(2)
  have "redirect (targetUrl v) = Inr location \<longrightarrow>
          fst (redirect_GET redirect parser None scan_fault s' headers (resp_short_code r))
            = RedirectTo location 302"
    by simp
  with u show ?thesis by simp
qed

theorem issue_then_redirect_roundtrip_witness:
  "fst (redirect_GET https_redirect token_parser None
          (Some (new_Error ''Connection terminated unexpectedly''))
          store_with_github iphone_headers ''Zk3_qP-x7A'')
     = RedirectTo ''https://github.com/'' 302"
proof -
  have l: "https_redirect ''https://github.com'' = Inr ''https://github.com/''"
    by (simp add: https_redirect_def)
  from issue_then_redirect_roundtrip [OF fresh_issue, of https_redirect "''https://github.com/''"
         token_parser "Some (new_Error ''Connection terminated unexpectedly'')" iphone_headers] l
  show ?thesis by (simp add: github_body_def)
qed

text \<open>
  C2, as stated, fails: a short code that resolves to a stored QRCode is not always
  answered with a 302 to the stored target URL. A stored target that is not an absolute
  URL makes \<open>NextResponse.redirect\<close> throw, and the outer \<open>catch\<close> answers 500; and for
  the seeded row the Location is \<open>https://example.com/\<close>, not the stored text.
\<close>

theorem redirect_stored_target_counterexample:
  "getQRCodeByShortCode store_with_text_target None ''def456uvw'' = Inr (Some text_qr) \<and>
   status_of (fst (redirect_GET https_redirect token_parser None None store_with_text_target
                     iphone_headers ''def456uvw'')) = 500 \<and>
   target_url seed_qr = ''https://example.com'' \<and>
   fst (redirect_GET https_redirect token_parser None None seed_store iphone_headers
          ''abc123xyz'')
     = RedirectTo ''https://example.com/'' 302"
  by (simp add: text_lookup redirect_GET_hit [OF text_lookup] redirect_GET_hit [OF seed_lookup]
        https_redirect_def text_qr_def seed_qr_def new_Error_def)

text \<open>
  C2, amended: when the short code resolves to a stored QRCode, the response is the same
  for every outcome of the scan write (an injected storage failure, a constraint
  violation caused by the request headers, or success), and a failed scan write leaves
  the store untouched. That response is the 302 redirect to what \<open>NextResponse.redirect\<close>
  makes of the stored target URL when it accepts the URL, and HTTP 500 when it throws
  because the stored target is not an absolute URL.
\<close>

theorem redirect_despite_scan_failure:
  assumes "getQRCodeByShortCode s None shortCode = Inr (Some qrCode)"
  shows "fst (redirect_GET redirect parser None scan_fault s headers shortCode)
           = fst (redirect_GET redirect parser None None s headers shortCode) \<and>
         (redirect (target_url qrCode) = Inr location \<longrightarrow>
            fst (redirect_GET redirect parser None scan_fault s headers shortCode)
              = RedirectTo location 302) \<and>
         (redirect (target_url qrCode) = Inl e \<longrightarrow>
            fst (redirect_GET redirect parser None scan_fault s headers shortCode)
              = ErrorJson 500 ''Redirect failed'' (Some (err_message e))) \<and>
         (scan_fault = Some e' \<longrightarrow>
            snd (redirect_GET redirect parser None scan_fault s headers shortCode) = s)"
proof (intro conjI impI)
  show "fst (redirect_GET redirect parser None scan_fault s headers shortCode)
           = fst (redirect_GET redirect parser None None s headers shortCode)"
    by (simp add: redirect_GET_hit [OF assms])
next
  assume "redirect (target_url qrCode) = Inr location"
  then show "fst (redirect_GET redirect parser None scan_fault s headers shortCode)
              = RedirectTo location 302"
    by (simp add: redirect_GET_hit [OF assms])
next
  assume "redirect (target_url qrCode) = Inl e"
  then show "fst (redirect_GET redirect parser None scan_fault s headers shortCode)
              = ErrorJson 500 ''Redirect failed'' (Some (err_message e))"
    by (simp add: redirect_GET_hit [OF assms])
next
  assume "scan_fault = Some e'"
  with assms show "snd (redirect_GET redirect parser None scan_fault s headers shortCode) = s"
    by (simp add: redirect_GET_def Let_def createScan_def split: prod.splits sum.splits)
qed

theorem redirect_despite_scan_failure_witness:
  "redirect_GET https_redirect token_parser None
      (Some (new_Error ''Connection terminated unexpectedly'')) seed_store iphone_headers
      ''abc123xyz''
     = (RedirectTo ''https://example.com/'' 302, seed_store) \<and>
   fst (redirect_GET https_redirect token_parser None None seed_store iphone_headers
          ''abc123xyz'')
     = RedirectTo ''https://example.com/'' 302 \<and>
   redirect_GET https_redirect token_parser None
      (Some (new_Error ''Connection terminated unexpectedly'')) store_with_text_target
      iphone_headers ''def456uvw''
     = (ErrorJson 500 ''Redirect failed'' (Some ''URL is malformed''), store_with_text_target)"
proof -
  have l: "https_redirect (target_url seed_qr) = Inr ''https://example.com/''"
    and m: "https_redirect (target_url text_qr) = Inl (new_Error ''URL is malformed'')"
    by (simp_all add: https_redirect_def seed_qr_def text_qr_def)
  from redirect_despite_scan_failure [OF seed_lookup, of https_redirect token_parser
          "Some (new_Error ''Connection terminated unexpectedly'')" iphone_headers
          "''https://example.com/''" _ "new_Error ''Connection terminated unexpectedly''"] l
  have "fst (redirect_GET https_redirect token_parser None
      (Some (new_Error ''Connection terminated unexpectedly'')) seed_store iphone_headers
      ''abc123xyz'') = RedirectTo ''https://example.com/'' 302"
    and "snd (redirect_GET https_redirect token_parser None
      (Some (new_Error ''Connection terminated unexpectedly'')) seed_store iphone_headers
      ''abc123xyz'') = seed_store"
    by blast+
  then have 1: "redirect_GET https_redirect token_parser None
      (Some (new_Error ''Connection terminated unexpectedly'')) seed_store iphone_headers
      ''abc123xyz''
     = (RedirectTo ''https://example.com/'' 302, seed_store)"
    by (simp add: prod_eq_iff)
  from redirect_despite_scan_failure [OF seed_lookup, of https_redirect token_parser
          None iphone_headers "''https://example.com/''"] l
  have 2: "fst (redirect_GET https_redirect token_parser None None seed_store iphone_headers
          ''abc123xyz'')
     = RedirectTo ''https://example.com/'' 302"
    by simp
  from redirect_despite_scan_failure [OF text_lookup, of https_redirect token_parser
          "Some (new_Error ''Connection terminated unexpectedly'')" iphone_headers
          _ "new_Error ''URL is malformed''" "new_Error ''Connection terminated unexpectedly''"] m
  have "fst (redirect_GET https_redirect token_parser None
      (Some (new_Error ''Connection terminated unexpectedly'')) store_with_text_target
      iphone_headers ''def456uvw'')
        = ErrorJson 500 ''Redirect failed'' (Some (err_message (new_Error ''URL is malformed'')))"
    and "snd (redirect_GET https_redirect token_parser None
      (Some (new_Error ''Connection terminated unexpectedly'')) store_with_text_target
      iphone_headers ''def456uvw'') = store_with_text_target"
    by blast+
  then have 3: "redirect_GET https_redirect token_parser None
      (Some (new_Error ''Connection terminated unexpectedly'')) store_with_text_target
      iphone_headers ''def456uvw''
     = (ErrorJson 500 ''Redirect failed'' (Some ''URL is malformed''), store_with_text_target)"
    by (simp add: prod_eq_iff new_Error_def)
  from 1 2 3 show ?thesis by simp
qed

text \<open>
  C4: for a short code that no stored QRCode carries, the handler answers 404 and returns
  the store exactly as it was; in particular no scan is added.
\<close>

theorem redirect_unknown_code:
  assumes "shortCode \<notin> set (map short_code (qr_codes s))"
  shows "redirect_GET redirect parser None scan_fault s headers shortCode
           = (ErrorJson 404 ''QR code not found'' None, s) \<and>
         scans (snd (redirect_GET redirect parser None scan_fault s headers shortCode)) = scans s"
proof -
  have "find (\<lambda>q. short_code q = shortCode) (qr_codes s) = None"
    using assms by (auto simp: find_None_iff)
  then show ?thesis
    by (simp add: redirect_GET_def getQRCodeByShortCode_def)
qed

theorem redirect_unknown_code_witness:
  "redirect_GET https_redirect token_parser None None seed_store iphone_headers ''unknown-code''
     = (ErrorJson 404 ''QR code not found'' None, seed_store)"
  using redirect_unknown_code [of "''unknown-code''" seed_store https_redirect token_parser None
          iphone_headers]
  by (simp add: seed_store_def seed_qr_def)

subsection \<open>UserAgentClassifier: parseUserAgent\<close>

text \<open>
  C7, as stated, fails for the empty string, which is a non-null input: the guard
  \<open>!userAgent\<close> sends it to (unknown, unknown), not to desktop, although nothing was
  detected.
\<close>

theorem parseUserAgent_empty_counterexample:
  "parseUserAgent no_detection (Some '''') = (''unknown'', ''unknown'') \<and>
   fst (parseUserAgent no_detection (Some '''')) \<noteq> ''desktop''"
  by (simp add: parseUserAgent_def)

text \<open>
  C7, amended: absent or empty input yields (unknown, unknown). For every non-empty
  input the device type is mobile exactly when the parser reports mobile, tablet exactly
  when it reports tablet, and desktop in every other case; the browser is the literal
  unknown when the parser reports no browser name, and the reported name when that is
  non-empty.
\<close>

theorem parseUserAgent_classification:
  "parseUserAgent parser None = (''unknown'', ''unknown'') \<and>
   parseUserAgent parser (Some []) = (''unknown'', ''unknown'') \<and>
   (ua \<noteq> [] \<longrightarrow>
      fst (parseUserAgent parser (Some ua)) \<in> {''mobile'', ''tablet'', ''desktop''} \<and>
      (fst (parseUserAgent parser (Some ua)) = ''mobile''
         \<longleftrightarrow> getDevice_type parser ua = Some ''mobile'') \<and>
      (fst (parseUserAgent parser (Some ua)) = ''tablet''
         \<longleftrightarrow> getDevice_type parser ua = Some ''tablet'') \<and>
      (fst (parseUserAgent parser (Some ua)) = ''desktop''
         \<longleftrightarrow> getDevice_type parser ua \<notin> {Some ''mobile'', Some ''tablet''}) \<and>
      (getBrowser_name parser ua = None \<longrightarrow> snd (parseUserAgent parser (Some ua)) = ''unknown'') \<and>
      (getBrowser_name parser ua = Some name \<and> name \<noteq> [] \<longrightarrow>
         snd (parseUserAgent parser (Some ua)) = name))"
  by (simp add: parseUserAgent_def js_or_def Let_def)

theorem parseUserAgent_classification_witness:
  "parseUserAgent token_parser (Some ''Mozilla/5.0 (iPhone) Safari'') = (''mobile'', ''Safari'') \<and>
   parseUserAgent token_parser (Some ''Watch OS'') = (''desktop'', ''unknown'')"
proof -
  have 1: "getDevice_type token_parser ''Mozilla/5.0 (iPhone) Safari'' = Some ''mobile''"
    and 2: "getBrowser_name token_parser ''Mozilla/5.0 (iPhone) Safari'' = Some ''Safari''"
    and 3: "getDevice_type token_parser ''Watch OS'' = Some ''wearable''"
    and 4: "getBrowser_name token_parser ''Watch OS'' = None"
    by (simp_all add: token_parser_def)
  from parseUserAgent_classification [of token_parser "''Mozilla/5.0 (iPhone) Safari''" "''Safari''"]
       parseUserAgent_classification [of token_parser "''Watch OS''" "''Safari''"]
  show ?thesis
    by (simp add: 1 2 3 4 prod_eq_iff)
qed

subsection \<open>Issuance: retries and the failure after the insert\<close>

text \<open>
  C3: for a valid request, an attempt whose insert hits the unique index on the short
  code counts as a duplicate; after a duplicate the loop generates a new code and tries
  again; the handler calls \<open>createQRCode\<close> at most 5 times; five duplicates in a row
  give HTTP 500 with the retry-exhausted message and leave the store as it was; a failed
  insert that is not a duplicate ends the request at once with the error response of
  that error (HTTP 500 unless the error is named ZodError), with no further attempt.
\<close>

theorem issuance_retry_policy:
  assumes "generateQRSchema_parse (is_url E) body = Inr v"
  shows
    "length (snd (snd (generate_POST E s (Inr body)))) \<le> MAX_ATTEMPTS \<and>
     (insert_fault E k = None \<and> nanoid E k \<in> set (map short_code (qr_codes s)) \<and>
      length (nanoid E k) \<le> 21 \<and> targetUrl v \<noteq> [] \<longrightarrow> duplicate_at E v s k) \<and>
     (k < MAX_ATTEMPTS \<and> (\<forall>j<k. duplicate_at E v s j) \<and>
      attempt E v s k = Inr (q, s1) \<and> render E v k = Inr img \<longrightarrow>
        (\<exists>r. generate_POST E s (Inr body)
                = (GeneratedJson 201 r, s1, map (nanoid E) [0..<Suc k]) \<and>
             resp_short_code r = nanoid E k)) \<and>
     ((\<forall>j<MAX_ATTEMPTS. duplicate_at E v s j) \<longrightarrow>
        generate_POST E s (Inr body)
          = (ErrorJson 500 ''Failed to generate QR code''
               (Some ''Failed to generate unique short code''),
             s, map (nanoid E) [0..<MAX_ATTEMPTS])) \<and>
     (k < MAX_ATTEMPTS \<and> (\<forall>j<k. duplicate_at E v s j) \<and>
      attempt E v s k = Inl e \<and> \<not> is_duplicate_key e \<longrightarrow>
        generate_POST E s (Inr body)
          = (generate_error_response e, s, map (nanoid E) [0..<Suc k]) \<and>
        (err_name e \<noteq> ''ZodError'' \<longrightarrow> status_of (generate_error_response e) = 500))"
proof (intro conjI impI)
  have "length (snd (snd (issue_loop E v s (nanoid E 0) 0 []))) \<le> MAX_ATTEMPTS"
    using issue_loop_bound [of E v s "nanoid E 0" 0 "[]"] by simp
  then show "length (snd (snd (generate_POST E s (Inr body)))) \<le> MAX_ATTEMPTS"
    by (auto simp: generate_POST_valid [OF assms] split: prod.splits sum.splits)
next
  assume "insert_fault E k = None \<and> nanoid E k \<in> set (map short_code (qr_codes s)) \<and>
      length (nanoid E k) \<le> 21 \<and> targetUrl v \<noteq> []"
  then show "duplicate_at E v s k"
    by (intro collision_is_duplicate [OF assms]) simp_all
next
  assume h: "k < MAX_ATTEMPTS \<and> (\<forall>j<k. duplicate_at E v s j) \<and>
      attempt E v s k = Inr (q, s1) \<and> render E v k = Inr img"
  then have "issue_loop E v s (nanoid E 0) 0 []
           = (Inr (GeneratedJson 201
                \<lparr> resp_id = qr_id q, resp_short_code = nanoid E k,
                   resp_short_url = getBaseURL E @ ''/r/'' @ nanoid E k,
                   resp_qr_code_data_url = img,
                   resp_analytics_url = getBaseURL E @ ''/analytics/'' @ show_int (qr_id q) \<rparr>),
              s1, map (nanoid E) [0..<Suc k])"
    by (intro issue_loop_success) simp_all
  then show "\<exists>r. generate_POST E s (Inr body)
                = (GeneratedJson 201 r, s1, map (nanoid E) [0..<Suc k]) \<and>
             resp_short_code r = nanoid E k"
    by (simp add: generate_POST_valid [OF assms])
next
  assume "\<forall>j<MAX_ATTEMPTS. duplicate_at E v s j"
  then have "issue_loop E v s (nanoid E 0) 0 []
           = (Inl (new_Error ''Failed to generate unique short code''), s,
              map (nanoid E) [0..<MAX_ATTEMPTS])"
    by (rule issue_loop_exhausted)
  then show "generate_POST E s (Inr body)
          = (ErrorJson 500 ''Failed to generate QR code''
               (Some ''Failed to generate unique short code''),
             s, map (nanoid E) [0..<MAX_ATTEMPTS])"
    by (simp add: generate_POST_valid [OF assms] generate_error_response_def new_Error_def)
next
  assume "k < MAX_ATTEMPTS \<and> (\<forall>j<k. duplicate_at E v s j) \<and>
      attempt E v s k = Inl e \<and> \<not> is_duplicate_key e"
  then have "issue_loop E v s (nanoid E 0) 0 [] = (Inl e, s, map (nanoid E) [0..<Suc k])"
    by (intro issue_loop_abort) simp_all
  then show "generate_POST E s (Inr body)
          = (generate_error_response e, s, map (nanoid E) [0..<Suc k])"
    by (simp add: generate_POST_valid [OF assms])
next
  assume "err_name e \<noteq> ''ZodError''"
  then show "status_of (generate_error_response e) = 500"
    by (simp add: generate_error_response_def)
qed

theorem issuance_retry_policy_witness:
  "generate_POST retry_env seed_store (Inr github_body)
     = (GeneratedJson 201
          \<lparr> resp_id = 2, resp_short_code = ''Zk3_qP-x7A'',
             resp_short_url = ''http://localhost:3000/r/Zk3_qP-x7A'',
             resp_qr_code_data_url = ''data:image/png;base64,http://localhost:3000/r/Zk3_qP-x7A'',
             resp_analytics_url = ''http://localhost:3000/analytics/'' @ show_int 2 \<rparr>,
        store_with_github, [''abc123xyz'', ''Zk3_qP-x7A'']) \<and>
   generate_POST stuck_env seed_store (Inr github_body)
     = (ErrorJson 500 ''Failed to generate QR code''
          (Some ''Failed to generate unique short code''),
        seed_store, replicate 5 ''abc123xyz'') \<and>
   generate_POST outage_env seed_store (Inr github_body)
     = (ErrorJson 500 ''Failed to generate QR code''
          (Some ''Connection terminated unexpectedly''),
        seed_store, [''abc123xyz'', ''Zk3_qP-x7A''])"
proof (intro conjI)
  let ?E = retry_env
  have p: "generateQRSchema_parse (is_url ?E) github_body = Inr github_input"
    by (simp add: parse_github)
  have n: "nanoid ?E 0 = ''abc123xyz''" "nanoid ?E (Suc 0) = ''Zk3_qP-x7A''"
    and b: "getBaseURL ?E = ''http://localhost:3000''"
    by (simp_all add: retry_env_def getBaseURL_def js_or_def)
  have d: "\<forall>j<1. duplicate_at ?E github_input seed_store j"
    by (simp add: seed_collision retry_env_def)
  have a: "attempt ?E github_input seed_store 1 = Inr (github_qr, store_with_github)"
    by (simp add: github_insert retry_env_def)
  have r: "render ?E github_input 1
             = Inr ''data:image/png;base64,http://localhost:3000/r/Zk3_qP-x7A''"
    by (simp add: render_def retry_env_def getBaseURL_def js_or_def github_input_def)
  from issuance_retry_policy [OF p, of seed_store 1 github_qr store_with_github
         "''data:image/png;base64,http://localhost:3000/r/Zk3_qP-x7A''"] d a r
  obtain resp where
    post: "generate_POST ?E seed_store (Inr github_body)
             = (GeneratedJson 201 resp, store_with_github, [''abc123xyz'', ''Zk3_qP-x7A''])"
    by (auto simp: n)
  have "issue_loop ?E github_input seed_store (nanoid ?E 0) 0 []
     = (Inr (GeneratedJson 201
         \<lparr> resp_id = 2, resp_short_code = ''Zk3_qP-x7A'',
            resp_short_url = ''http://localhost:3000/r/Zk3_qP-x7A'',
            resp_qr_code_data_url = ''data:image/png;base64,http://localhost:3000/r/Zk3_qP-x7A'',
            resp_analytics_url = ''http://localhost:3000/analytics/'' @ show_int 2 \<rparr>),
        store_with_github, [''abc123xyz'', ''Zk3_qP-x7A''])"
    using issue_loop_success [of 1, OF _ d a r] by (simp add: n b github_qr_def)
  with post show "generate_POST ?E seed_store (Inr github_body)
     = (GeneratedJson 201
          \<lparr> resp_id = 2, resp_short_code = ''Zk3_qP-x7A'',
             resp_short_url = ''http://localhost:3000/r/Zk3_qP-x7A'',
             resp_qr_code_data_url = ''data:image/png;base64,http://localhost:3000/r/Zk3_qP-x7A'',
             resp_analytics_url = ''http://localhost:3000/analytics/'' @ show_int 2 \<rparr>,
        store_with_github, [''abc123xyz'', ''Zk3_qP-x7A''])"
    by (simp add: generate_POST_valid [OF p])
next
  let ?E = stuck_env
  have p: "generateQRSchema_parse (is_url ?E) github_body = Inr github_input"
    by (simp add: parse_github stuck_env_def)
  have n: "nanoid ?E = (\<lambda>k. ''abc123xyz'')"
    by (simp add: stuck_env_def)
  have d: "\<forall>j<MAX_ATTEMPTS. duplicate_at ?E github_input seed_store j"
    by (simp add: seed_collision stuck_env_def retry_env_def)
  from issuance_retry_policy [OF p, of seed_store] d
  show "generate_POST ?E seed_store (Inr github_body)
     = (ErrorJson 500 ''Failed to generate QR code''
          (Some ''Failed to generate unique short code''),
        seed_store, replicate 5 ''abc123xyz'')"
    by (simp add: n map_replicate_const)
next
  let ?E = outage_env
  have p: "generateQRSchema_parse (is_url ?E) github_body = Inr github_input"
    by (simp add: parse_github outage_env_def)
  have n: "nanoid ?E 0 = ''abc123xyz''" "nanoid ?E (Suc 0) = ''Zk3_qP-x7A''"
    by (simp_all add: outage_env_def retry_env_def)
  have d: "\<forall>j<1. duplicate_at ?E github_input seed_store j"
    by (simp add: seed_collision outage_env_def retry_env_def)
  have a: "attempt ?E github_input seed_store 1
             = Inl (new_Error ''Connection terminated unexpectedly'')"
    by (simp add: attempt_def createQRCode_def outage_env_def)
  have nd: "\<not> is_duplicate_key (new_Error ''Connection terminated unexpectedly'')"
    by (simp add: is_duplicate_key_def new_Error_def)
  from issuance_retry_policy [OF p, of seed_store 1 _ _ _
         "new_Error ''Connection terminated unexpectedly''"] d a nd
  show "generate_POST ?E seed_store (Inr github_body)
     = (ErrorJson 500 ''Failed to generate QR code''
          (Some ''Connection terminated unexpectedly''),
        seed_store, [''abc123xyz'', ''Zk3_qP-x7A''])"
    by (simp add: n generate_error_response_def new_Error_def)
qed

text \<open>
  C10: when, for a valid request, the insert of some attempt succeeds and the renderer
  then throws, the endpoint answers HTTP 500 although the new row is in the store it
  leaves behind: the row carries the generated short code, which was free before, and
  the redirect lookup finds it.
\<close>

theorem render_failure_keeps_record:
  assumes "generateQRSchema_parse (is_url E) body = Inr v"
    and "k < MAX_ATTEMPTS" and "\<forall>j<k. duplicate_at E v s j"
    and "attempt E v s k = Inr (q, s1)" and "render E v k = Inl e"
  shows "generate_POST E s (Inr body)
           = (ErrorJson 500 ''Failed to generate QR code'' (Some ''Failed to generate QR code''),
              s1, map (nanoid E) [0..<Suc k]) \<and>
         q \<in> set (qr_codes s1) \<and> short_code q = nanoid E k \<and> target_url q = targetUrl v \<and>
         nanoid E k \<notin> set (map short_code (qr_codes s)) \<and>
         getQRCodeByShortCode s1 None (nanoid E k) = Inr (Some q)"
proof -
  have "issue_loop E v s (nanoid E 0) 0 []
          = (Inl (new_Error ''Failed to generate QR code''), s1, map (nanoid E) [0..<Suc k])"
    using assms(2-5) by (rule issue_loop_render_fails)
  then have post: "generate_POST E s (Inr body)
           = (ErrorJson 500 ''Failed to generate QR code'' (Some ''Failed to generate QR code''),
              s1, map (nanoid E) [0..<Suc k])"
    by (simp add: generate_POST_valid [OF assms(1)] generate_error_response_def new_Error_def)
  note c = createQRCode_Inr [OF assms(4) [unfolded attempt_def]]
  have "getQRCodeByShortCode s1 None (nanoid E k) = Inr (Some q)"
    using c by (simp add: getQRCodeByShortCode_def find_appended_row)
  with post c show ?thesis by simp
qed

theorem render_failure_keeps_record_witness:
  "generate_POST broken_renderer_env seed_store (Inr github_body)
     = (ErrorJson 500 ''Failed to generate QR code'' (Some ''Failed to generate QR code''),
        store_with_github, [''abc123xyz'', ''Zk3_qP-x7A'']) \<and>
   github_qr \<in> set (qr_codes store_with_github) \<and>
   getQRCodeByShortCode store_with_github None ''Zk3_qP-x7A'' = Inr (Some github_qr)"
proof -
  have n: "nanoid broken_renderer_env 0 = ''abc123xyz''"
          "nanoid broken_renderer_env (Suc 0) = ''Zk3_qP-x7A''"
    by (simp_all add: broken_renderer_env_def retry_env_def)
  have p: "generateQRSchema_parse (is_url broken_renderer_env) github_body = Inr github_input"
    by (simp add: parse_github broken_renderer_env_def)
  have d: "\<forall>j<1. duplicate_at broken_renderer_env github_input seed_store j"
    by (simp add: seed_collision broken_renderer_env_def retry_env_def)
  have a: "attempt broken_renderer_env github_input seed_store 1
             = Inr (github_qr, store_with_github)"
    by (simp add: github_insert broken_renderer_env_def retry_env_def)
  have r: "render broken_renderer_env github_input 1 = Inl (new_Error ''canvas unavailable'')"
    by (simp add: render_def broken_renderer_env_def)
  from render_failure_keeps_record [OF p _ d a r]
  show ?thesis by (simp add: n)
qed

subsection \<open>parseInt on decimal text\<close>

lemma decimal_digit_val: "is_decimal_digit c \<Longrightarrow> digit_val c < 10"
  by (auto simp: is_decimal_digit_def digit_val_def Let_def)

lemma decimal_digit_plain:
  assumes "is_decimal_digit c"
  shows "\<not> is_js_space c" "c \<noteq> CHR ''-''" "c \<noteq> CHR ''+''" "c \<noteq> CHR ''x''" "c \<noteq> CHR ''X''"
  using assms by (auto simp: is_decimal_digit_def is_js_space_def)

lemma digit_char: "d < 10 \<Longrightarrow> is_decimal_digit (char_of (48 + d)) \<and> digit_val (char_of (48 + d)) = d"
  by (auto simp: is_decimal_digit_def digit_val_def Let_def)

lemma digits_value_snoc: "digits_value r (ds @ [c]) = digits_value r ds * r + digit_val c"
  by (simp add: digits_value_def)

lemma show_nat_decimal:
  "show_nat n \<noteq> [] \<and> list_all is_decimal_digit (show_nat n) \<and> digits_value 10 (show_nat n) = n"
proof (induction n rule: show_nat.induct)
  case (1 n)
  show ?case
  proof (cases "n < 10")
    case True
    then show ?thesis
      using digit_char [of n] by (simp add: show_nat.simps [of n] digits_value_def)
  next
    case False
    with "1.IH" digit_char [of "n mod 10"] show ?thesis
      by (simp add: show_nat.simps [of n] digits_value_snoc)
  qed
qed

lemma parseInt_decimal:
  assumes "ds \<noteq> []" "list_all is_decimal_digit ds"
  shows "parseInt ds = Some (int (digits_value 10 ds))"
proof -
  from assms obtain c cs where ds: "ds = c # cs" and c: "is_decimal_digit c"
    and cs: "list_all is_decimal_digit cs"
    by (cases ds) auto
  have sp: "dropWhile is_js_space ds = ds"
    using ds decimal_digit_plain(1) [OF c] by simp
  have sg: "(case ds of [] \<Rightarrow> (1::int, ds)
             | c # r \<Rightarrow> if c = CHR ''-'' then (- 1, r)
                        else if c = CHR ''+'' then (1, r) else (1, ds)) = (1, ds)"
    using ds decimal_digit_plain(2,3) [OF c] by simp
  have px: "\<not> (prefix ''0x'' ds \<or> prefix ''0X'' ds)"
    using ds cs by (cases cs) (auto dest: decimal_digit_plain)
  have tw: "takeWhile (\<lambda>c. digit_val c < 10) ds = ds"
    using assms(2) by (auto simp: list_all_iff decimal_digit_val)
  show ?thesis
    unfolding parseInt_def Let_def sp sg
    using assms(1) px by (simp add: tw)
qed

lemma parseInt_show_nat: "parseInt (show_nat n) = Some (int n)"
  using show_nat_decimal [of n] by (simp add: parseInt_decimal)

text \<open>
  Decimal digits followed by anything that does not go on with a digit, and that does not
  make the whole start with \<open>0x\<close>: the digits are the value and the rest is ignored.
  An input whose first character is neither white space nor a sign nor a digit is NaN.
\<close>

lemma digit_val_decimal: "digit_val c < 10 \<longleftrightarrow> is_decimal_digit c"
  by (auto simp: is_decimal_digit_def digit_val_def Let_def)

lemma parseInt_decimal_prefix:
  assumes "ds \<noteq> []" "list_all is_decimal_digit ds" "takeWhile is_decimal_digit rest = []"
    and "\<not> prefix ''0x'' (ds @ rest)" "\<not> prefix ''0X'' (ds @ rest)"
  shows "parseInt (ds @ rest) = Some (int (digits_value 10 ds))"
proof -
  let ?p = "ds @ rest"
  from assms obtain c cs where ds: "ds = c # cs" and c: "is_decimal_digit c"
    by (cases ds) auto
  have sp: "dropWhile is_js_space ?p = ?p"
    using ds decimal_digit_plain(1) [OF c] by simp
  have sg: "(case ?p of [] \<Rightarrow> (1::int, ?p)
             | c # r \<Rightarrow> if c = CHR ''-'' then (- 1, r)
                        else if c = CHR ''+'' then (1, r) else (1, ?p)) = (1, ?p)"
    using ds decimal_digit_plain(2,3) [OF c] by simp
  have px: "\<not> (prefix ''0x'' ?p \<or> prefix ''0X'' ?p)"
    using assms(4,5) by simp
  have "takeWhile (\<lambda>c. digit_val c < 10) ?p = ds @ takeWhile is_decimal_digit rest"
    using assms(2) by (simp add: digit_val_decimal list_all_iff takeWhile_append2)
  then have tw: "takeWhile (\<lambda>c. digit_val c < 10) ?p = ds"
    using assms(3) by simp
  show ?thesis
    unfolding parseInt_def Let_def sp sg
    using assms(1) px by (simp add: tw)
qed

lemma parseInt_not_a_number:
  assumes "\<not> is_js_space c" "c \<noteq> CHR ''-''" "c \<noteq> CHR ''+''" "\<not> is_decimal_digit c"
  shows "parseInt (c # r) = None"
proof -
  let ?p = "c # r"
  have sp: "dropWhile is_js_space ?p = ?p"
    using assms(1) by simp
  have sg: "(case ?p of [] \<Rightarrow> (1::int, ?p)
             | c # r \<Rightarrow> if c = CHR ''-'' then (- 1, r)
                        else if c = CHR ''+'' then (1, r) else (1, ?p)) = (1, ?p)"
    using assms(2,3) by simp
  have z: "c \<noteq> CHR ''0''"
    using assms(4) by (auto simp: is_decimal_digit_def)
  then have px: "\<not> (prefix ''0x'' ?p \<or> prefix ''0X'' ?p)"
    by auto
  show ?thesis
    unfolding parseInt_def Let_def sp sg
    using px assms(4) by (simp add: digit_val_decimal)
qed

subsection \<open>AnalyticsAggregator\<close>

lemma headerless_scan_recorded:
  "snd (redirect_GET https_redirect no_detection None None seed_store (\<lambda>name. None) ''abc123xyz'')
     = seed_store \<lparr> scans := [headerless_scan \<lparr> scan_id := 1 \<rparr>], scans_id_seq := 2 \<rparr>"
  unfolding redirect_GET_def seed_lookup
  by (simp add: Let_def createScan_def parseUserAgent_def https_redirect_def
        js_or_def truncateIP_def too_long_def seed_store_def seed_qr_def headerless_scan_def)

lemma parseInt_1: "parseInt ''1'' = Some 1"
  by (simp add: parseInt_decimal is_decimal_digit_def digits_value_def digit_val_def)

lemma parseInt_1abc: "parseInt ''1abc'' = Some 1"
  by (simp add: parseInt_def is_js_space_def digits_value_def digit_val_def Let_def)

lemma find_by_id_scan_count:
  "find (\<lambda>q. qr_id q = i) (map (\<lambda>q. q\<lparr> scan_count := f q \<rparr>) qs)
     = map_option (\<lambda>q. q\<lparr> scan_count := f q \<rparr>) (find (\<lambda>q. qr_id q = i) qs)"
  by (induction qs) auto

lemma find_by_id_Some:
  "i \<in> set (map qr_id qs) \<Longrightarrow> \<exists>q. find (\<lambda>q. qr_id q = i) qs = Some q"
  by (induction qs) auto

lemma fetch_analytics_total:
  "fetch_analytics fault s qrId = Inr a
     \<Longrightarrow> total_scans a = Some (int (length (filter (\<lambda>r. qr_code_id r = qrId) (scans s))))"
  by (auto simp: fetch_analytics_def getTotalScans_def parseInt_show_nat scans_where_def
           split: sum.splits option.splits)

lemma fetch_analytics_no_fault:
  "\<forall>k. fault k = None \<Longrightarrow> \<exists>a. fetch_analytics fault s qrId = Inr a"
  by (simp add: fetch_analytics_def getTotalScans_def getScansByDate_def getDeviceBreakdown_def
        getBrowserBreakdown_def getLocationBreakdown_def Let_def)

lemma queries_ignore_qr_codes:
  "getTotalScans (s\<lparr> qr_codes := qs \<rparr>) = getTotalScans s"
  "getScansByDate (s\<lparr> qr_codes := qs \<rparr>) = getScansByDate s"
  "getDeviceBreakdown (s\<lparr> qr_codes := qs \<rparr>) = getDeviceBreakdown s"
  "getBrowserBreakdown (s\<lparr> qr_codes := qs \<rparr>) = getBrowserBreakdown s"
  "getLocationBreakdown (s\<lparr> qr_codes := qs \<rparr>) = getLocationBreakdown s"
  by (simp_all add: fun_eq_iff getTotalScans_def getScansByDate_def getDeviceBreakdown_def
        getBrowserBreakdown_def getLocationBreakdown_def scans_where_def split: option.splits)

lemma fetch_analytics_scan_count:
  "fetch_analytics fault (s\<lparr> qr_codes := qs \<rparr>) qrId = fetch_analytics fault s qrId"
  unfolding fetch_analytics_def queries_ignore_qr_codes by (rule refl)

text \<open>
  C5: for an id that parses to the id of a stored QRCode, the endpoint answers 200 when
  no query fails, and whenever it answers with an analytics payload, \<open>total_scans\<close> is
  exactly the number of rows of \<open>scans\<close> whose \<open>qr_code_id\<close> is that id. Rewriting the
  \<open>scan_count\<close> column of \<open>qr_codes\<close> in any way leaves the whole response the same.
\<close>

theorem total_scans_counts_scan_events:
  assumes "parseInt qrId_param = Some qrId" and "qrId \<in> set (map qr_id (qr_codes s))"
  shows "((\<forall>k. fault k = None) \<longrightarrow> (\<exists>a. analytics_GET fault s qrId_param = AnalyticsJson 200 a)) \<and>
         (analytics_GET fault s qrId_param = AnalyticsJson st a \<longrightarrow>
            total_scans a
              = Some (int (length (filter (\<lambda>r. qr_code_id r = qrId) (scans s))))) \<and>
         analytics_GET fault (s\<lparr> qr_codes := map (\<lambda>q. q\<lparr> scan_count := f q \<rparr>) (qr_codes s) \<rparr>)
             qrId_param
           = analytics_GET fault s qrId_param"
proof (intro conjI impI)
  from find_by_id_Some [OF assms(2)] obtain q where
    q: "find (\<lambda>q. qr_id q = qrId) (qr_codes s) = Some q" by blast
  {
    assume nf: "\<forall>k. fault k = None"
    from fetch_analytics_no_fault [OF nf] obtain a0 where "fetch_analytics fault s qrId = Inr a0"
      by blast
    then show "\<exists>a. analytics_GET fault s qrId_param = AnalyticsJson 200 a"
      using nf q by (simp add: analytics_GET_def assms(1) getQRCodeById_def)
  }
  {
    assume "analytics_GET fault s qrId_param = AnalyticsJson st a"
    then have "fetch_analytics fault s qrId = Inr a"
      by (auto simp: analytics_GET_def assms(1) analytics_error_response_def
               split: sum.splits option.splits)
    then show "total_scans a
              = Some (int (length (filter (\<lambda>r. qr_code_id r = qrId) (scans s))))"
      by (rule fetch_analytics_total)
  }
  show "analytics_GET fault (s\<lparr> qr_codes := map (\<lambda>q. q\<lparr> scan_count := f q \<rparr>) (qr_codes s) \<rparr>)
             qrId_param
           = analytics_GET fault s qrId_param"
    using q
    by (simp add: analytics_GET_def assms(1) getQRCodeById_def find_by_id_scan_count
          fetch_analytics_scan_count split: option.splits)
qed

lemma scanned_store_has_1: "1 \<in> set (map qr_id (qr_codes scanned_store))"
  by (simp add: scanned_store_def seed_store_def seed_qr_def)

theorem total_scans_counts_scan_events_witness:
  "(\<exists>a. analytics_GET (\<lambda>k. None) scanned_store ''1'' = AnalyticsJson 200 a \<and>
        total_scans a = Some 2) \<and>
   map scan_count (qr_codes scanned_store) = [0]"
proof -
  note t = total_scans_counts_scan_events [OF parseInt_1 scanned_store_has_1,
             of "\<lambda>k. None" 200 _ "\<lambda>q. 0"]
  from t obtain a where a: "analytics_GET (\<lambda>k. None) scanned_store ''1'' = AnalyticsJson 200 a"
    by auto
  with t [of a] have "total_scans a = Some 2"
    by (simp add: scanned_store_def bare_scan_def headerless_scan_def)
  with a show ?thesis
    by (simp add: scanned_store_def seed_store_def seed_qr_def)
qed

text \<open>
  C9, as stated, fails: an id that is not a number is not always answered with 400.
  \<open>parseInt\<close> reads the leading integer and ignores the rest, so \<open>1abc\<close> is served as
  id 1, here with a 200 and the (empty) analytics of the seeded QR code.
\<close>

theorem analytics_non_numeric_id_counterexample:
  "analytics_GET (\<lambda>k. None) seed_store ''1abc''
     = AnalyticsJson 200 \<lparr> total_scans = Some 0, scans_by_date = [], device_breakdown = [],
                            browser_breakdown = [], location_breakdown = [] \<rparr>"
  by (simp add: analytics_GET_def parseInt_1abc getQRCodeById_def seed_store_def seed_qr_def
        fetch_analytics_def getTotalScans_def getScansByDate_def getDeviceBreakdown_def
        getBrowserBreakdown_def getLocationBreakdown_def scans_where_def group_count_def
        parseInt_show_nat)

text \<open>
  C9, amended: the endpoint answers 400 exactly for the ids on which \<open>parseInt\<close> yields
  NaN, among them every id whose first character is neither white space nor a sign nor a
  decimal digit. An id made of decimal digits is read as that number, and so is an id
  that starts with decimal digits and goes on with anything that is not a decimal digit
  (the whole not starting with \<open>0x\<close> or \<open>0X\<close>): it is not rejected. An id that
  \<open>parseInt\<close> reads as a number no stored QRCode has is answered with 404, never with a
  payload, when the number is within the int4 range and the existence check does not
  fail; outside the int4 range the existence check throws and the answer is 500.
\<close>

theorem analytics_id_handling:
  "(status_of (analytics_GET fault s qrId_param) = 400 \<longleftrightarrow> parseInt qrId_param = None) \<and>
   (\<not> is_js_space c \<and> c \<noteq> CHR ''-'' \<and> c \<noteq> CHR ''+'' \<and> \<not> is_decimal_digit c \<longrightarrow>
      analytics_GET fault s (c # r) = ErrorJson 400 ''Invalid QR code ID'' None) \<and>
   (qrId_param \<noteq> [] \<and> list_all is_decimal_digit qrId_param \<longrightarrow>
      parseInt qrId_param = Some (int (digits_value 10 qrId_param))) \<and>
   (ds \<noteq> [] \<and> list_all is_decimal_digit ds \<and> takeWhile is_decimal_digit rest = [] \<and>
    \<not> prefix ''0x'' (ds @ rest) \<and> \<not> prefix ''0X'' (ds @ rest) \<longrightarrow>
      parseInt (ds @ rest) = Some (int (digits_value 10 ds))) \<and>
   (parseInt qrId_param = Some qrId \<and> fault 0 = None \<and>
    qrId \<notin> set (map qr_id (qr_codes s)) \<and> in_int4 qrId \<longrightarrow>
      analytics_GET fault s qrId_param = ErrorJson 404 ''QR code not found'' None) \<and>
   (parseInt qrId_param = Some qrId \<and> fault 0 = None \<and>
    qrId \<notin> set (map qr_id (qr_codes s)) \<and> \<not> in_int4 qrId \<longrightarrow>
      status_of (analytics_GET fault s qrId_param) = 500)"
proof (intro conjI impI)
  show "status_of (analytics_GET fault s qrId_param) = 400 \<longleftrightarrow> parseInt qrId_param = None"
    by (simp add: analytics_GET_def analytics_error_response_def
          split: option.splits sum.splits)
next
  assume "\<not> is_js_space c \<and> c \<noteq> CHR ''-'' \<and> c \<noteq> CHR ''+'' \<and> \<not> is_decimal_digit c"
  then have "parseInt (c # r) = None"
    by (intro parseInt_not_a_number) simp_all
  then show "analytics_GET fault s (c # r) = ErrorJson 400 ''Invalid QR code ID'' None"
    by (simp add: analytics_GET_def)
next
  assume "qrId_param \<noteq> [] \<and> list_all is_decimal_digit qrId_param"
  then show "parseInt qrId_param = Some (int (digits_value 10 qrId_param))"
    by (simp add: parseInt_decimal)
next
  assume "ds \<noteq> [] \<and> list_all is_decimal_digit ds \<and> takeWhile is_decimal_digit rest = [] \<and>
    \<not> prefix ''0x'' (ds @ rest) \<and> \<not> prefix ''0X'' (ds @ rest)"
  then show "parseInt (ds @ rest) = Some (int (digits_value 10 ds))"
    by (intro parseInt_decimal_prefix) simp_all
next
  assume h: "parseInt qrId_param = Some qrId \<and> fault 0 = None \<and>
    qrId \<notin> set (map qr_id (qr_codes s)) \<and> in_int4 qrId"
  then have "find (\<lambda>q. qr_id q = qrId) (qr_codes s) = None"
    by (auto simp: find_None_iff)
  with h show "analytics_GET fault s qrId_param = ErrorJson 404 ''QR code not found'' None"
    by (simp add: analytics_GET_def getQRCodeById_def)
next
  assume h: "parseInt qrId_param = Some qrId \<and> fault 0 = None \<and>
    qrId \<notin> set (map qr_id (qr_codes s)) \<and> \<not> in_int4 qrId"
  then have "find (\<lambda>q. qr_id q = qrId) (qr_codes s) = None"
    by (auto simp: find_None_iff)
  with h show "status_of (analytics_GET fault s qrId_param) = 500"
    by (simp add: analytics_GET_def getQRCodeById_def analytics_error_response_def)
qed

lemma parseInt_42: "parseInt ''42'' = Some 42"
  by (simp add: parseInt_decimal is_decimal_digit_def digits_value_def digit_val_def)

lemma parseInt_beyond_int4: "parseInt ''2147483648'' = Some 2147483648"
  by (simp add: parseInt_decimal is_decimal_digit_def digits_value_def digit_val_def)

theorem analytics_id_handling_witness:
  "analytics_GET (\<lambda>k. None) seed_store ''abc'' = ErrorJson 400 ''Invalid QR code ID'' None \<and>
   parseInt ''1abc'' = Some 1 \<and>
   analytics_GET (\<lambda>k. None) seed_store ''42'' = ErrorJson 404 ''QR code not found'' None \<and>
   status_of (analytics_GET (\<lambda>k. None) seed_store ''2147483648'') = 500"
proof -
  from analytics_id_handling [of "\<lambda>k. None" seed_store _ "CHR ''a''" "''bc''"]
  have 1: "analytics_GET (\<lambda>k. None) seed_store ''abc''
             = ErrorJson 400 ''Invalid QR code ID'' None"
    by (simp add: is_js_space_def is_decimal_digit_def)
  from analytics_id_handling [of "\<lambda>k. None" seed_store _ _ _ "''1''" "''abc''"]
  have 2: "parseInt ''1abc'' = Some 1"
    by (simp add: is_decimal_digit_def digits_value_def digit_val_def)
  from analytics_id_handling [of "\<lambda>k. None" seed_store "''42''" _ _ _ _ 42] parseInt_42
  have 3: "analytics_GET (\<lambda>k. None) seed_store ''42'' = ErrorJson 404 ''QR code not found'' None"
    by (simp add: seed_store_def seed_qr_def in_int4_def)
  from analytics_id_handling [of "\<lambda>k. None" seed_store "''2147483648''" _ _ _ _ 2147483648]
       parseInt_beyond_int4
  have 4: "status_of (analytics_GET (\<lambda>k. None) seed_store ''2147483648'') = 500"
    by (simp add: seed_store_def seed_qr_def in_int4_def)
  from 1 2 3 4 show ?thesis by simp
qed

text \<open>
  What holds of the aggregates on every store: the per-day rows are strictly ascending by date; no
  breakdown has more rows than its LIMIT and the rows it keeps are in descending order
  of count, every group left out counting no more than any group kept.
\<close>

lemma group_count_keys: "map fst (group_count key rows) = remdups (map key rows)"
  by (simp add: group_count_def comp_def)

lemma scans_by_date_ascending:
  assumes "getScansByDate s None qrCodeId = Inr rows"
  shows "sorted (map fst rows) \<and> distinct (map fst rows)"
proof -
  let ?g = "group_count (\<lambda>r. DATE (scanned_at r)) (scans_where s qrCodeId)"
  from assms have rows: "map fst rows = map fst (sort_key fst ?g)"
    by (auto simp: getScansByDate_def Let_def comp_def case_prod_unfold)
  have "distinct (map fst (sort_key fst ?g))"
    using distinct_remdups [of "map (\<lambda>r. DATE (scanned_at r)) (scans_where s qrCodeId)"]
    by (simp add: distinct_map group_count_keys [symmetric])
  then show ?thesis by (simp add: rows)
qed

lemma top_rows:
  fixes g :: "('k \<times> nat) list"
  defines "kept n \<equiv> take n (rev (sort_key snd g))"
  shows "length (kept n) \<le> n" and "sorted (rev (map snd (kept n)))"
    and "\<forall>x \<in> set g - set (kept n). \<forall>y \<in> set (kept n). snd x \<le> snd y"
proof -
  let ?d = "rev (sort_key snd g)"
  have s: "sorted (rev (map snd ?d))"
    by (simp add: rev_map [symmetric])
  show "length (kept n) \<le> n" by (simp add: kept_def)
  have split: "?d = kept n @ drop n ?d" by (simp add: kept_def)
  have "sorted (rev (map snd (kept n @ drop n ?d)))"
    using s split by simp
  then have a: "sorted (rev (map snd (kept n)))"
    and b: "\<forall>x \<in> set (drop n ?d). \<forall>y \<in> set (kept n). snd x \<le> snd y"
    by (auto simp: sorted_append)
  show "sorted (rev (map snd (kept n)))" by (rule a)
  have "set g = set (kept n) \<union> set (drop n ?d)"
    by (subst set_append [symmetric], subst split [symmetric]) simp
  with b show "\<forall>x \<in> set g - set (kept n). \<forall>y \<in> set (kept n). snd x \<le> snd y"
    by blast
qed

lemma browser_breakdown_top_10:
  "\<exists>kept. getBrowserBreakdown s None qrCodeId
            = Inr (map (\<lambda>(k, n). (COALESCE k ''unknown'', Some (int n))) kept) \<and>
         length kept \<le> 10 \<and> sorted (rev (map snd kept)) \<and>
         (\<forall>x \<in> set (group_count browser (scans_where s qrCodeId)) - set kept.
            \<forall>y \<in> set kept. snd x \<le> snd y)"
  using top_rows [where n = 10 and g = "group_count browser (scans_where s qrCodeId)"]
  by (intro exI [of _ "take 10 (rev (sort_key snd (group_count browser (scans_where s qrCodeId))))"])
     (simp add: getBrowserBreakdown_def parseInt_show_nat)

lemma location_breakdown_top_20:
  "\<exists>kept. getLocationBreakdown s None qrCodeId
            = Inr (map (\<lambda>((co, ci), n). (COALESCE co ''unknown'', COALESCE ci ''unknown'',
                                          Some (int n))) kept) \<and>
         length kept \<le> 20 \<and> sorted (rev (map snd kept)) \<and>
         (\<forall>x \<in> set (group_count (\<lambda>r. (country r, city r)) (scans_where s qrCodeId)) - set kept.
            \<forall>y \<in> set kept. snd x \<le> snd y)"
  using top_rows [where n = 20 and g = "group_count (\<lambda>r. (country r, city r)) (scans_where s qrCodeId)"]
  by (intro exI [of _ "take 20 (rev (sort_key snd
        (group_count (\<lambda>r. (country r, city r)) (scans_where s qrCodeId))))"])
     (simp add: getLocationBreakdown_def parseInt_show_nat)

text \<open>
  C8 on a store the schema allows: the seeded QR code with one scan whose
  \<open>device_type\<close> is NULL and one whose \<open>device_type\<close> is the string unknown. The query
  groups by the stored column and coalesces afterwards, so the label unknown comes out
  twice. The other breakdowns, where NULL/unknown rows are separate groups as well, are
  listed for comparison.
\<close>

theorem device_breakdown_repeats_unknown:
  "getDeviceBreakdown scanned_store None 1 = Inr [(''unknown'', Some 1), (''unknown'', Some 1)] \<and>
   getBrowserBreakdown scanned_store None 1 = Inr [(''unknown'', Some 1), (''unknown'', Some 1)] \<and>
   getScansByDate scanned_store None 1 = Inr [(0, Some 1), (1, Some 1)]"
  by (simp add: getDeviceBreakdown_def getBrowserBreakdown_def getScansByDate_def
        scans_where_def group_count_def scanned_store_def bare_scan_def headerless_scan_def
        COALESCE_def parseInt_show_nat DATE_def)

end
